theory Spec2Isabelle
  imports Complex_Main
begin

section \<open>Python floats\<close>

text \<open>
  The service of \<^verbatim>\<open>src/app/python_ml_service.py\<close> computes on Python floats: IEEE 754
  binary64 values. A float is a finite value, an infinity or NaN. A finite value is kept as the
  real number it denotes (the two zeros are not told apart), and every arithmetic result is
  rounded to a double. \<open>Fin x\<close> is a Python float when \<open>x\<close> is a double (\<open>is_double\<close> below);
  the literal \<^verbatim>\<open>0.9\<close> of a program is \<open>py_literal (9 / 10)\<close>, the double nearest to nine
  tenths, and not \<open>Fin (9 / 10)\<close>. What is proved for every real holds for every double.
\<close>

datatype pyfloat = Fin real | PosInf | NegInf | NaN

text \<open>The number of binary digits of a positive integer.\<close>

function bit_len :: "int \<Rightarrow> nat" where
  "bit_len n = (if n \<le> 0 then 0 else Suc (bit_len (n div 2)))"
  by pat_completeness auto
termination
  by (relation "measure nat") auto

declare bit_len.simps [simp del]

definition pow2 :: "int \<Rightarrow> real" where
  "pow2 k = (if 0 \<le> k then 2 ^ nat k else 1 / 2 ^ nat (- k))"

text \<open>
  The binary exponent \<open>e\<close> of a non-zero real: \<open>2^e \<le> |x| < 2^(e+1)\<close>, computed from the
  integer part of \<open>|x|\<close>, or of \<open>1 / |x|\<close> below one.
\<close>

definition binary_exponent :: "real \<Rightarrow> int" where
  "binary_exponent x =
     (if 1 \<le> \<bar>x\<bar> then int (bit_len \<lfloor>\<bar>x\<bar>\<rfloor>) - 1
      else - int (bit_len (\<lceil>1 / \<bar>x\<bar>\<rceil> - 1)))"

text \<open>
  The spacing of the doubles around \<open>x\<close>: 53 significant bits, and \<open>2^-1074\<close> in the
  subnormal range.
\<close>

definition quantum :: "real \<Rightarrow> real" where
  "quantum x = pow2 (max (binary_exponent x - 52) (- 1074))"

definition round_half_even :: "real \<Rightarrow> int" where
  "round_half_even y =
     (let f = \<lfloor>y\<rfloor>; d = y - of_int f
      in if d < 1 / 2 then f else if 1 / 2 < d then f + 1 else if even f then f else f + 1)"

definition nearest_double :: "real \<Rightarrow> real" where
  "nearest_double x = of_int (round_half_even (x / quantum x)) * quantum x"

text \<open>The doubles: the reals that rounding leaves as they are, within the exponent range.\<close>

definition is_double :: "real \<Rightarrow> bool" where
  "is_double x \<longleftrightarrow> nearest_double x = x \<and> binary_exponent x \<le> 1023"

text \<open>Round to nearest, ties to even; a result beyond the largest exponent overflows.\<close>

definition fround :: "real \<Rightarrow> pyfloat" where
  "fround x =
     (let r = nearest_double x
      in if 1023 < binary_exponent r then (if 0 < r then PosInf else NegInf) else Fin r)"

fun fneg :: "pyfloat \<Rightarrow> pyfloat" where
  "fneg (Fin x) = Fin (- x)"
| "fneg PosInf = NegInf"
| "fneg NegInf = PosInf"
| "fneg NaN = NaN"

fun fsub :: "pyfloat \<Rightarrow> pyfloat \<Rightarrow> pyfloat" where
  "fsub NaN b = NaN"
| "fsub a NaN = NaN"
| "fsub (Fin x) (Fin y) = fround (x - y)"
| "fsub (Fin x) PosInf = NegInf"
| "fsub (Fin x) NegInf = PosInf"
| "fsub PosInf PosInf = NaN"
| "fsub PosInf b = PosInf"
| "fsub NegInf NegInf = NaN"
| "fsub NegInf b = NegInf"

fun fmul :: "pyfloat \<Rightarrow> pyfloat \<Rightarrow> pyfloat" where
  "fmul NaN b = NaN"
| "fmul a NaN = NaN"
| "fmul (Fin x) (Fin y) = fround (x * y)"
| "fmul (Fin x) b = (if x = 0 then NaN else if 0 < x then b else fneg b)"
| "fmul a (Fin y) = (if y = 0 then NaN else if 0 < y then a else fneg a)"
| "fmul a b = (if a = b then PosInf else NegInf)"

text \<open>Comparisons: every comparison with NaN is false.\<close>

fun py_lt :: "pyfloat \<Rightarrow> pyfloat \<Rightarrow> bool" where
  "py_lt NaN b = False"
| "py_lt a NaN = False"
| "py_lt (Fin x) (Fin y) = (x < y)"
| "py_lt a NegInf = False"
| "py_lt PosInf b = False"
| "py_lt a b = True"

definition py_eq :: "pyfloat \<Rightarrow> pyfloat \<Rightarrow> bool" where
  "py_eq a b = (a \<noteq> NaN \<and> a = b)"

definition py_ge :: "pyfloat \<Rightarrow> pyfloat \<Rightarrow> bool" where
  "py_ge a b = (py_lt b a \<or> py_eq a b)"

text \<open>A decimal literal of the source denotes the nearest double.\<close>

definition py_literal :: "real \<Rightarrow> pyfloat" where
  "py_literal x = fround x"

section \<open>Python values, exceptions and the random generator\<close>

text \<open>
  A dictionary is an association list in insertion order. Console output is kept only where
  a property speaks of it, in \<^verbatim>\<open>validate_features\<close>.
\<close>

datatype pyval =
    PNone
  | PBool bool
  | PInt int
  | PFloat pyfloat
  | PStr string
  | PList "pyval list"
  | PDict "(pyval \<times> pyval) list"

type_synonym pydict = "(string \<times> pyval) list"

text \<open>Exceptions: the classes the service raises itself, and any other class by name.\<close>

datatype exn =
    FileNotFoundError string
  | ValueError string
  | RuntimeError string
  | OverflowError string
  | KeyError int
  | Raised string string

fun show_nat :: "nat \<Rightarrow> string" where
  "show_nat n =
     (if n < 10 then [''0123456789'' ! n]
      else show_nat (n div 10) @ [''0123456789'' ! (n mod 10)])"

declare show_nat.simps [simp del]

definition show_int :: "int \<Rightarrow> string" where
  "show_int i = (if i < 0 then CHR ''-'' # show_nat (nat (- i)) else show_nat (nat i))"

text \<open>\<^verbatim>\<open>str(e)\<close>: the message; for a \<^verbatim>\<open>KeyError\<close> the representation of the key.\<close>

fun exn_str :: "exn \<Rightarrow> string" where
  "exn_str (FileNotFoundError msg) = msg"
| "exn_str (ValueError msg) = msg"
| "exn_str (RuntimeError msg) = msg"
| "exn_str (OverflowError msg) = msg"
| "exn_str (KeyError k) = show_int k"
| "exn_str (Raised cls msg) = msg"

fun exn_class :: "exn \<Rightarrow> string" where
  "exn_class (FileNotFoundError msg) = ''FileNotFoundError''"
| "exn_class (ValueError msg) = ''ValueError''"
| "exn_class (RuntimeError msg) = ''RuntimeError''"
| "exn_class (OverflowError msg) = ''OverflowError''"
| "exn_class (KeyError k) = ''KeyError''"
| "exn_class (Raised cls msg) = cls"

text \<open>
  The process-wide generator behind \<^verbatim>\<open>np.random.randint\<close> is a stream of naturals; a draw
  reads the head and moves on. \<^verbatim>\<open>randint(low, high)\<close> draws integers of numpy's default
  integer type, here 64 bits, from the half-open interval \<open>[low, high)\<close>. As numpy does, it first makes the upper end inclusive,
  rejects a \<open>low\<close> below \<open>-2^63\<close>, then a \<open>high\<close> above \<open>2^63 - 1\<close>, then an empty interval,
  each with a \<^verbatim>\<open>ValueError\<close> that leaves the generator as it was.
\<close>

type_synonym rng = "nat \<Rightarrow> nat"

definition randint :: "int \<Rightarrow> int \<Rightarrow> rng \<Rightarrow> (exn + int) \<times> rng" where
  "randint low high g =
     (let top = high - 1
      in if low < - (2 ^ 63) then (Inl (ValueError ''low is out of bounds for int64''), g)
         else if 2 ^ 63 - 1 < top then (Inl (ValueError ''high is out of bounds for int64''), g)
         else if top < low then (Inl (ValueError ''low >= high''), g)
         else (Inr (low + int (g 0 mod nat (high - low))), \<lambda>n. g (Suc n)))"

text \<open>
  \<^verbatim>\<open>int(x)\<close> on a float truncates toward zero; it raises on NaN and on the infinities.
\<close>

fun py_int :: "pyfloat \<Rightarrow> exn + int" where
  "py_int (Fin x) = Inr (if 0 \<le> x then \<lfloor>x\<rfloor> else \<lceil>x\<rceil>)"
| "py_int NaN = Inl (ValueError ''cannot convert float NaN to integer'')"
| "py_int a = Inl (OverflowError ''cannot convert float infinity to integer'')"

text \<open>\<^verbatim>\<open>d[k] = v\<close>: overwrite in place, or append a new key.\<close>

fun dict_set :: "('k \<times> 'v) list \<Rightarrow> 'k \<Rightarrow> 'v \<Rightarrow> ('k \<times> 'v) list" where
  "dict_set [] k v = [(k, v)]"
| "dict_set ((k', v') # d) k v = (if k' = k then (k, v) # d else (k', v') # dict_set d k v)"

text \<open>
  \<^verbatim>\<open>{key(i): float(x) for i, x in enumerate(xs)}\<close>, where computing a key may raise.
\<close>

fun enum_dict ::
  "(nat \<Rightarrow> exn + pyval) \<Rightarrow> nat \<Rightarrow> real list \<Rightarrow> (pyval \<times> pyval) list
     \<Rightarrow> exn + (pyval \<times> pyval) list" where
  "enum_dict key i [] acc = Inr acc"
| "enum_dict key i (x # xs) acc =
     (case key i of
        Inl e \<Rightarrow> Inl e
      | Inr k \<Rightarrow> enum_dict key (Suc i) xs (dict_set acc k (PFloat (Fin x))))"

text \<open>\<^verbatim>\<open>max(xs)\<close> raises \<^verbatim>\<open>ValueError\<close> on an empty sequence.\<close>

definition py_max :: "real list \<Rightarrow> exn + real" where
  "py_max xs =
     (case xs of
        [] \<Rightarrow> Inl (ValueError ''max() arg is an empty sequence'')
      | x # ys \<Rightarrow> Inr (fold max ys x))"

section \<open>The classifier and the service object\<close>

text \<open>
  The loaded model is opaque: a runtime type name, the required \<^verbatim>\<open>predict\<close> (the class id
  of the single row, or the exception raised), and optional attributes, \<open>None\<close> when
  \<^verbatim>\<open>hasattr\<close> is false. The probabilities and importances it reports are finite numbers.
\<close>

record classifier =
  type_name :: string
  predict :: "pyfloat list \<Rightarrow> exn + int"
  predict_proba :: "(pyfloat list \<Rightarrow> exn + real list) option"
  feature_importances :: "real list option"
  n_estimators :: "pyval option"
  max_depth :: "pyval option"
  random_state :: "pyval option"

record service =
  model_path :: string
  model :: "classifier option"
  feature_names :: "string list"
  credit_categories :: "(int \<times> string) list"

definition FEATURE_NAMES :: "string list" where
  "FEATURE_NAMES =
     [''Outstanding_Debt'', ''Credit_Mix'', ''Credit_History_Age'', ''Monthly_Balance'',
      ''Payment_Behaviour'', ''Annual_Income'', ''Num_of_Delayed_Payment'']"

definition CREDIT_CATEGORIES :: "(int \<times> string) list" where
  "CREDIT_CATEGORIES = [(0, ''Good''), (1, ''Poor''), (2, ''Standard'')]"

text \<open>The two tables are written once, by the constructor, and never assigned again.\<close>

definition service_inv :: "service \<Rightarrow> bool" where
  "service_inv svc \<longleftrightarrow>
     feature_names svc = FEATURE_NAMES \<and> credit_categories svc = CREDIT_CATEGORIES"

section \<open>Score conversion\<close>

definition base_scores :: "(int \<times> int) list" where
  "base_scores = [(0, 750), (1, 580), (2, 650)]"

definition base_score :: "int \<Rightarrow> int" where
  "base_score category = (case map_of base_scores category of Some b \<Rightarrow> b | None \<Rightarrow> 650)"

text \<open>
  \<^verbatim>\<open>(1 - confidence) * 50\<close> in double precision: the difference is rounded, then the product.
\<close>

definition scaled_doubt :: "pyfloat \<Rightarrow> pyfloat" where
  "scaled_doubt confidence = fmul (fsub (Fin 1) confidence) (Fin 50)"

definition variance :: "pyfloat \<Rightarrow> exn + int" where
  "variance confidence = py_int (scaled_doubt confidence)"

definition convert_category_to_score ::
  "int \<Rightarrow> pyfloat \<Rightarrow> rng \<Rightarrow> (exn + int) \<times> rng" where
  "convert_category_to_score category confidence g =
     (case variance confidence of
        Inl e \<Rightarrow> (Inl e, g)
      | Inr v \<Rightarrow>
          (case randint (- v) (v + 1) g of
             (Inl e, g') \<Rightarrow> (Inl e, g')
           | (Inr adjustment, g') \<Rightarrow>
               (let final_score = base_score category + adjustment
                in (Inr (max 300 (min 850 final_score)), g'))))"

section \<open>Feature validation\<close>

text \<open>
  \<^verbatim>\<open>validate_features\<close> returns its verdict together with the lines it prints, so that the
  rule that rejected an input can be observed. The tuple assignment unpacks exactly seven
  values and raises otherwise, which can only happen when the schema itself is not of
  length seven.
\<close>

definition validate_features ::
  "service \<Rightarrow> pyfloat list \<Rightarrow> (exn + bool) \<times> string list" where
  "validate_features svc features =
     (if length features \<noteq> length (feature_names svc) then
        (Inr False,
         [''Expected '' @ show_nat (length (feature_names svc)) @ '' features, got ''
            @ show_nat (length features)])
      else case features of
        [outstanding_debt, credit_mix, credit_history_age, monthly_balance,
         payment_behaviour, annual_income, delayed_payments] \<Rightarrow>
          (if py_lt outstanding_debt (Fin 0) then
             (Inr False, [''Outstanding debt cannot be negative''])
           else if \<not> list_ex (py_eq credit_mix) [Fin 0, Fin 1, Fin 2] then
             (Inr False, [''Credit mix must be 0, 1, or 2''])
           else if py_lt credit_history_age (Fin 0) then
             (Inr False, [''Credit history age cannot be negative''])
           else if py_lt annual_income (Fin 0) then
             (Inr False, [''Annual income cannot be negative''])
           else if py_lt delayed_payments (Fin 0) then
             (Inr False, [''Delayed payments cannot be negative''])
           else (Inr True, []))
      | _ \<Rightarrow>
          (Inl (ValueError
                 (if length features < 7 then
                    ''not enough values to unpack (expected 7, got ''
                      @ show_nat (length features) @ '')''
                  else ''too many values to unpack (expected 7)'')),
           []))"

section \<open>Prediction\<close>

text \<open>
  The optional probability step (lines 120 to 133): every fault inside it is swallowed. The
  assignments already made when the fault occurs are kept, so an empty probability vector
  leaves an empty mapping and the default confidence.
\<close>

definition default_confidence :: pyfloat where
  "default_confidence = py_literal (85 / 100)"

definition category_key :: "(int \<times> string) list \<Rightarrow> nat \<Rightarrow> exn + pyval" where
  "category_key cats i =
     (case map_of cats (int i) of None \<Rightarrow> Inl (KeyError (int i)) | Some l \<Rightarrow> Inr (PStr l))"

definition name_key :: "string list \<Rightarrow> nat \<Rightarrow> exn + pyval" where
  "name_key names i =
     (if i < length names then Inr (PStr (names ! i))
      else Inl (Raised ''IndexError'' ''list index out of range''))"

definition proba_step :: "service \<Rightarrow> classifier \<Rightarrow> pyfloat list \<Rightarrow> pyfloat \<times> pyval" where
  "proba_step svc m features =
     (case predict_proba m of
        None \<Rightarrow> (default_confidence, PNone)
      | Some estimate \<Rightarrow>
          (case estimate features of
             Inl e \<Rightarrow> (default_confidence, PNone)
           | Inr proba \<Rightarrow>
               (case enum_dict (category_key (credit_categories svc)) 0 proba [] of
                  Inl e \<Rightarrow> (default_confidence, PNone)
                | Inr probabilities \<Rightarrow>
                    (case py_max proba of
                       Inl e \<Rightarrow> (default_confidence, PDict probabilities)
                     | Inr confidence \<Rightarrow> (Fin confidence, PDict probabilities)))))"

definition importance_step :: "service \<Rightarrow> classifier \<Rightarrow> pyval" where
  "importance_step svc m =
     (case feature_importances m of
        None \<Rightarrow> PNone
      | Some importance \<Rightarrow>
          (case enum_dict (name_key (feature_names svc)) 0 importance [] of
             Inl e \<Rightarrow> PNone
           | Inr feature_importance \<Rightarrow> PDict feature_importance))"

text \<open>\<^verbatim>\<open>dict(zip(names, features))\<close>.\<close>

definition features_used :: "string list \<Rightarrow> pyfloat list \<Rightarrow> pyval" where
  "features_used names features =
     PDict (fold (\<lambda>(n, x) d. dict_set d (PStr n) (PFloat x)) (zip names features) [])"

text \<open>The dictionary returned on success (lines 150 to 160).\<close>

definition success_result ::
  "int \<Rightarrow> string \<Rightarrow> int \<Rightarrow> pyfloat \<Rightarrow> pyval \<Rightarrow> pyval \<Rightarrow> string \<Rightarrow> pyval \<Rightarrow> pydict" where
  "success_result prediction label credit_score confidence probabilities feature_importance
      model_type used =
     [(''success'', PBool True),
      (''prediction_category'', PInt prediction),
      (''prediction_label'', PStr label),
      (''credit_score_estimate'', PInt credit_score),
      (''confidence'', PFloat confidence),
      (''probabilities'', probabilities),
      (''feature_importance'', feature_importance),
      (''model_type'', PStr model_type),
      (''features_used'', used)]"

text \<open>
  The body of the \<^verbatim>\<open>try\<close> block of \<^verbatim>\<open>predict_credit_score\<close>, in the source's order: the
  score is drawn before the label is looked up.
\<close>

definition predict_body ::
  "service \<Rightarrow> pyfloat list \<Rightarrow> rng \<Rightarrow> (exn + pydict) \<times> rng" where
  "predict_body svc features g =
     (case fst (validate_features svc features) of
        Inl e \<Rightarrow> (Inl e, g)
      | Inr valid \<Rightarrow>
          (if \<not> valid then (Inl (ValueError ''Invalid features provided''), g)
           else
             (case model svc of
                None \<Rightarrow> (Inl (RuntimeError ''Model not loaded''), g)
              | Some m \<Rightarrow>
                  (case predict m features of
                     Inl e \<Rightarrow> (Inl e, g)
                   | Inr prediction \<Rightarrow>
                       (let (confidence, probabilities) = proba_step svc m features;
                            feature_importance = importance_step svc m
                        in (case convert_category_to_score prediction confidence g of
                              (Inl e, g') \<Rightarrow> (Inl e, g')
                            | (Inr credit_score, g') \<Rightarrow>
                                (case map_of (credit_categories svc) prediction of
                                   None \<Rightarrow> (Inl (KeyError prediction), g')
                                 | Some label \<Rightarrow>
                                     (Inr (success_result prediction label credit_score
                                             confidence probabilities feature_importance
                                             (type_name m)
                                             (features_used (feature_names svc) features)),
                                      g'))))))))"

text \<open>The dictionary built by the \<^verbatim>\<open>except Exception\<close> handler.\<close>

definition failure_result :: "exn \<Rightarrow> pydict" where
  "failure_result e =
     [(''success'', PBool False),
      (''error'', PStr (exn_str e)),
      (''prediction_category'', PNone),
      (''prediction_label'', PNone),
      (''credit_score_estimate'', PNone),
      (''confidence'', PNone)]"

definition predict_credit_score ::
  "service \<Rightarrow> pyfloat list \<Rightarrow> rng \<Rightarrow> pydict \<times> rng" where
  "predict_credit_score svc features g =
     (case predict_body svc features g of
        (Inr result, g') \<Rightarrow> (result, g')
      | (Inl e, g') \<Rightarrow> (failure_result e, g'))"

text \<open>The loop of \<^verbatim>\<open>batch_predict\<close>, with \<open>results\<close> as the accumulator.\<close>

fun batch_loop ::
  "service \<Rightarrow> pyfloat list list \<Rightarrow> pydict list \<Rightarrow> rng \<Rightarrow> pydict list \<times> rng" where
  "batch_loop svc [] results g = (results, g)"
| "batch_loop svc (features # rest) results g =
     (case predict_credit_score svc features g of
        (result, g') \<Rightarrow> batch_loop svc rest (results @ [result]) g')"

definition batch_predict ::
  "service \<Rightarrow> pyfloat list list \<Rightarrow> rng \<Rightarrow> pydict list \<times> rng" where
  "batch_predict svc features_list g = batch_loop svc features_list [] g"

section \<open>Introspection\<close>

definition add_attr :: "string \<Rightarrow> pyval option \<Rightarrow> pydict \<Rightarrow> pydict" where
  "add_attr name attr info = (case attr of None \<Rightarrow> info | Some v \<Rightarrow> dict_set info name v)"

definition get_model_info :: "service \<Rightarrow> pydict" where
  "get_model_info svc =
     (case model svc of
        None \<Rightarrow> [(''error'', PStr ''Model not loaded'')]
      | Some m \<Rightarrow>
          (let info = [(''model_type'', PStr (type_name m)),
                       (''feature_names'', PList (map PStr (feature_names svc))),
                       (''credit_categories'',
                          PDict (map (\<lambda>(k, l). (PInt k, PStr l)) (credit_categories svc))),
                       (''model_loaded'', PBool True)];
               info = add_attr ''n_estimators'' (n_estimators m) info;
               info = add_attr ''max_depth'' (max_depth m) info;
               info = add_attr ''random_state'' (random_state m) info
           in info))"

section \<open>Loading the model\<close>

text \<open>
  The file system and the deserializer are the environment: whether a path exists, and what
  \<^verbatim>\<open>joblib.load\<close> returns or raises for it.
\<close>

record env =
  path_exists :: "string \<Rightarrow> bool"
  joblib_load :: "string \<Rightarrow> exn + classifier"

text \<open>The handler of \<^verbatim>\<open>load_model\<close> reports the exception and raises it again, as it is.\<close>

definition load_model :: "env \<Rightarrow> service \<Rightarrow> exn + service" where
  "load_model e svc =
     (case (if path_exists e (model_path svc) then
              (case joblib_load e (model_path svc) of
                 Inl err \<Rightarrow> Inl err
               | Inr m \<Rightarrow> Inr (svc\<lparr>model := Some m\<rparr>))
            else Inl (FileNotFoundError (''Model file not found: '' @ model_path svc))) of
        Inl err \<Rightarrow> Inl err
      | Inr svc' \<Rightarrow> Inr svc')"

text \<open>
  \<^verbatim>\<open>__init__\<close>: an exception of \<^verbatim>\<open>load_model\<close> leaves no object behind. The path is the
  string of the \<^verbatim>\<open>Path\<close> object the constructor builds.
\<close>

definition init :: "env \<Rightarrow> string \<Rightarrow> exn + service" where
  "init e path =
     load_model e
       \<lparr>model_path = path, model = None,
        feature_names = FEATURE_NAMES, credit_categories = CREDIT_CATEGORIES\<rparr>"

section \<open>What the specification says, and sample objects\<close>

text \<open>The scores \<^verbatim>\<open>convert_category_to_score\<close> can return, over all states of the generator.\<close>

definition possible_scores :: "int \<Rightarrow> pyfloat \<Rightarrow> int set" where
  "possible_scores category confidence =
     {s. \<exists>g. fst (convert_category_to_score category confidence g) = Inr s}"

text \<open>The adjustment drawn for a variance \<open>v \<ge> 0\<close> from the generator \<open>g\<close>.\<close>

definition adjustment_of :: "int \<Rightarrow> rng \<Rightarrow> int" where
  "adjustment_of v g = - v + int (g 0 mod nat (2 * v + 1))"

text \<open>
  Section 4.4 of the specification, in its words: the variance is the floor of
  \<open>(1 - confidence) * 50\<close>, the adjustment any integer of \<open>[-variance, +variance]\<close>. The
  confidence is the number the float denotes.
\<close>

definition spec_variance :: "real \<Rightarrow> int" where
  "spec_variance confidence = \<lfloor>(1 - confidence) * 50\<rfloor>"

definition spec_scores :: "int \<Rightarrow> real \<Rightarrow> int set" where
  "spec_scores category confidence =
     (\<lambda>a. max 300 (min 850 (base_score category + a)))
       ` {- spec_variance confidence .. spec_variance confidence}"

text \<open>
  Section 4.1 of the specification, in its words: a missing file is \<open>ModelNotFound\<close> (the
  code's \<^verbatim>\<open>FileNotFoundError\<close>), any other load fault a \<open>ModelLoadError\<close> that wraps the
  underlying failure.
\<close>

definition spec_load_model :: "env \<Rightarrow> service \<Rightarrow> exn + service" where
  "spec_load_model e svc =
     (if path_exists e (model_path svc) then
        (case joblib_load e (model_path svc) of
           Inl err \<Rightarrow> Inl (Raised ''ModelLoadError'' (exn_str err))
         | Inr m \<Rightarrow> Inr (svc\<lparr>model := Some m\<rparr>))
      else Inl (FileNotFoundError (''Model file not found: '' @ model_path svc)))"

text \<open>A forest-like classifier with every optional capability, and one with none.\<close>

definition forest :: "int \<Rightarrow> classifier" where
  "forest c =
     \<lparr>type_name = ''RandomForestClassifier'',
      predict = (\<lambda>features. Inr c),
      predict_proba = Some (\<lambda>features. Inr [1 / 8, 3 / 4, 1 / 8]),
      feature_importances = Some [1 / 4, 1 / 8, 1 / 8, 1 / 8, 1 / 8, 1 / 8, 1 / 8],
      n_estimators = Some (PInt 100),
      max_depth = Some PNone,
      random_state = Some (PInt 42)\<rparr>"

definition bare :: "int \<Rightarrow> classifier" where
  "bare c =
     \<lparr>type_name = ''DummyClassifier'',
      predict = (\<lambda>features. Inr c),
      predict_proba = None,
      feature_importances = None,
      n_estimators = None,
      max_depth = None,
      random_state = None\<rparr>"

definition service_of :: "classifier option \<Rightarrow> service" where
  "service_of m =
     \<lparr>model_path = ''models/credit_classifier.joblib'', model = m,
      feature_names = FEATURE_NAMES, credit_categories = CREDIT_CATEGORIES\<rparr>"

definition disk :: "bool \<Rightarrow> exn + classifier \<Rightarrow> env" where
  "disk present content = \<lparr>path_exists = (\<lambda>p. present), joblib_load = (\<lambda>p. content)\<rparr>"

definition zeros :: rng where
  "zeros = (\<lambda>n. 0)"

definition counting :: rng where
  "counting = (\<lambda>n. n + 3)"

text \<open>
  The first profile of the command-line test, a vector with a negative debt, and the vector
  that \<^verbatim>\<open>predict nan 1 36 2500 85 60000 2\<close> on the command line parses to.
\<close>

definition good_profile :: "pyfloat list" where
  "good_profile = [Fin 5000, Fin 1, Fin 36, Fin 2500, Fin 85, Fin 60000, Fin 2]"

definition bad_profile :: "pyfloat list" where
  "bad_profile = [Fin (- 1), Fin 1, Fin 36, Fin 2500, Fin 85, Fin 60000, Fin 2]"

definition nan_profile :: "pyfloat list" where
  "nan_profile = [NaN, Fin 1, Fin 36, Fin 2500, Fin 85, Fin 60000, Fin 2]"

text \<open>The double that the literal \<^verbatim>\<open>0.88\<close> denotes.\<close>

definition double_088 :: real where
  "double_088 = 7926335344172073 / 2 ^ 53"

section \<open>Rounding: bounds that survive\<close>

lemma bit_len_le: "n < 2 ^ k \<Longrightarrow> bit_len n \<le> k"
proof (induction k arbitrary: n)
  case 0
  then show ?case by (simp add: bit_len.simps [of n])
next
  case (Suc k)
  show ?case
  proof (cases "n \<le> 0")
    case True
    then show ?thesis by (simp add: bit_len.simps [of n])
  next
    case False
    from Suc.prems have "n div 2 < 2 ^ k" by simp
    then have "bit_len (n div 2) \<le> k" by (rule Suc.IH)
    with False show ?thesis by (simp add: bit_len.simps [of n])
  qed
qed

lemma pow2_pos: "0 < pow2 k"
  by (simp add: pow2_def)

lemma quantum_pos: "0 < quantum x"
  by (simp add: quantum_def pow2_pos)

lemma round_half_even_le: "y \<le> of_int M \<Longrightarrow> round_half_even y \<le> M"
proof -
  assume le: "y \<le> of_int M"
  then have f: "\<lfloor>y\<rfloor> \<le> M" by (simp add: floor_le_iff)
  have "\<lfloor>y\<rfloor> + 1 \<le> M" if "0 < y - of_int \<lfloor>y\<rfloor>"
  proof -
    from that have "of_int \<lfloor>y\<rfloor> < y" by simp
    with le have "(of_int \<lfloor>y\<rfloor> :: real) < of_int M" by linarith
    then show ?thesis by simp
  qed
  with f show ?thesis
    by (auto simp: round_half_even_def Let_def)
qed

lemma round_half_even_ge: "of_int M \<le> y \<Longrightarrow> M \<le> round_half_even y"
proof -
  assume "of_int M \<le> y"
  then have "M \<le> \<lfloor>y\<rfloor>" by (simp add: le_floor_iff)
  then show ?thesis
    by (auto simp: round_half_even_def Let_def)
qed

lemma nearest_double_nonneg: "0 \<le> x \<Longrightarrow> 0 \<le> nearest_double x"
proof -
  assume "0 \<le> x"
  then have "of_int 0 \<le> x / quantum x"
    using quantum_pos [of x] by simp
  then have "0 \<le> round_half_even (x / quantum x)"
    by (rule round_half_even_ge)
  then show ?thesis
    using quantum_pos [of x] by (simp add: nearest_double_def)
qed

lemma nearest_double_nonpos: "x \<le> 0 \<Longrightarrow> nearest_double x \<le> 0"
proof -
  assume "x \<le> 0"
  then have "x / quantum x \<le> of_int 0"
    using quantum_pos [of x] by (simp add: divide_le_0_iff)
  then have "round_half_even (x / quantum x) \<le> 0"
    by (rule round_half_even_le)
  then show ?thesis
    using quantum_pos [of x] by (simp add: nearest_double_def mult_le_0_iff)
qed

lemma binary_exponent_le: "\<bar>x\<bar> < 2 ^ Suc k \<Longrightarrow> binary_exponent x \<le> int k"
proof (cases "1 \<le> \<bar>x\<bar>")
  case True
  assume "\<bar>x\<bar> < 2 ^ Suc k"
  then have "\<lfloor>\<bar>x\<bar>\<rfloor> < 2 ^ Suc k"
    by (simp add: floor_less_iff)
  then have "bit_len \<lfloor>\<bar>x\<bar>\<rfloor> \<le> Suc k" by (rule bit_len_le)
  with True show ?thesis by (simp add: binary_exponent_def)
next
  case False
  then show ?thesis by (simp add: binary_exponent_def)
qed

lemma binary_exponent_zero: "binary_exponent 0 = 0"
  by (simp add: binary_exponent_def bit_len.simps [of "- 1"])

lemma quantum_fine:
  assumes "\<bar>x\<bar> < 2 ^ 53"
  shows "\<exists>n. quantum x = 1 / 2 ^ n"
proof -
  have "\<bar>x\<bar> < 2 ^ Suc 52" using assms by simp
  then have "binary_exponent x \<le> int 52" by (rule binary_exponent_le)
  then have q: "max (binary_exponent x - 52) (- 1074) \<le> 0" by simp
  show ?thesis
  proof (cases "max (binary_exponent x - 52) (- 1074) = 0")
    case True
    then have "quantum x = 1 / 2 ^ 0" by (simp add: quantum_def pow2_def)
    then show ?thesis by blast
  next
    case False
    with q have "max (binary_exponent x - 52) (- 1074) < 0" by simp
    then have "quantum x = 1 / 2 ^ nat (- max (binary_exponent x - 52) (- 1074))"
      by (simp add: quantum_def pow2_def)
    then show ?thesis by blast
  qed
qed

lemma nearest_double_le_int:
  assumes "\<bar>x\<bar> < 2 ^ 53" and "x \<le> of_int N"
  shows "nearest_double x \<le> of_int N"
proof -
  from quantum_fine [OF assms(1)] obtain n where q: "quantum x = 1 / 2 ^ n" by blast
  have "x * 2 ^ n \<le> of_int N * 2 ^ n" using assms(2) by simp
  then have "x / quantum x \<le> of_int (N * 2 ^ n)" by (simp add: q)
  then have "round_half_even (x / quantum x) \<le> N * 2 ^ n"
    by (rule round_half_even_le)
  then have "(of_int (round_half_even (x / quantum x)) :: real) \<le> of_int (N * 2 ^ n)"
    by (simp only: of_int_le_iff)
  then have "of_int (round_half_even (x / quantum x)) / 2 ^ n \<le> (of_int N :: real)"
    by (simp add: divide_le_eq)
  then show ?thesis by (simp add: nearest_double_def q)
qed

lemma nearest_double_ge_int:
  assumes "\<bar>x\<bar> < 2 ^ 53" and "of_int N \<le> x"
  shows "of_int N \<le> nearest_double x"
proof -
  from quantum_fine [OF assms(1)] obtain n where q: "quantum x = 1 / 2 ^ n" by blast
  have "of_int N * 2 ^ n \<le> x * 2 ^ n" using assms(2) by simp
  then have "of_int (N * 2 ^ n) \<le> x / quantum x" by (simp add: q)
  then have "N * 2 ^ n \<le> round_half_even (x / quantum x)"
    by (rule round_half_even_ge)
  then have "(of_int (N * 2 ^ n) :: real) \<le> of_int (round_half_even (x / quantum x))"
    by (simp only: of_int_le_iff)
  then have "(of_int N :: real) \<le> of_int (round_half_even (x / quantum x)) / 2 ^ n"
    by (simp add: le_divide_eq)
  then show ?thesis by (simp add: nearest_double_def q)
qed

lemma fround_Fin: "\<bar>nearest_double x\<bar> < 2 ^ 1024 \<Longrightarrow> fround x = Fin (nearest_double x)"
proof -
  assume "\<bar>nearest_double x\<bar> < 2 ^ 1024"
  then have "\<bar>nearest_double x\<bar> < 2 ^ Suc 1023" by simp
  then have "binary_exponent (nearest_double x) \<le> int 1023"
    by (rule binary_exponent_le)
  then show ?thesis by (simp add: fround_def Let_def)
qed

lemma fround_between:
  assumes "of_int L \<le> x" and "x \<le> of_int U" and "- (2 ^ 53) < L" and "U < 2 ^ 53"
  shows "\<exists>r. fround x = Fin r \<and> of_int L \<le> r \<and> r \<le> of_int U"
proof -
  have L: "- (2 ^ 53) < (of_int L :: real)" using assms(3)
    by (metis of_int_less_iff of_int_minus of_int_numeral of_int_power)
  have U: "(of_int U :: real) < 2 ^ 53" using assms(4)
    by (metis of_int_less_iff of_int_numeral of_int_power)
  have small: "\<bar>x\<bar> < 2 ^ 53" using assms(1,2) L U by linarith
  have lo: "of_int L \<le> nearest_double x"
    using small assms(1) by (rule nearest_double_ge_int)
  have hi: "nearest_double x \<le> of_int U"
    using small assms(2) by (rule nearest_double_le_int)
  have "\<bar>nearest_double x\<bar> < 2 ^ 53" using lo hi L U by linarith
  also have "(2 :: real) ^ 53 < 2 ^ 1024"
    by (rule power_strict_increasing) simp_all
  finally have "fround x = Fin (nearest_double x)" by (rule fround_Fin)
  with lo hi show ?thesis by blast
qed

lemma fround_nonneg:
  assumes "0 \<le> x"
  shows "fround x = PosInf \<or> (\<exists>r. fround x = Fin r \<and> 0 \<le> r)"
proof -
  have r: "0 \<le> nearest_double x" using assms by (rule nearest_double_nonneg)
  show ?thesis
  proof (cases "1023 < binary_exponent (nearest_double x)")
    case True
    then have "nearest_double x \<noteq> 0" using binary_exponent_zero by auto
    with r True show ?thesis by (simp add: fround_def Let_def)
  next
    case False
    with r show ?thesis by (simp add: fround_def Let_def)
  qed
qed

lemma fround_nonpos:
  assumes "x \<le> 0"
  shows "fround x = NegInf \<or> (\<exists>r. fround x = Fin r \<and> r \<le> 0)"
proof -
  have r: "nearest_double x \<le> 0" using assms by (rule nearest_double_nonpos)
  show ?thesis
  proof (cases "1023 < binary_exponent (nearest_double x)")
    case True
    with r show ?thesis by (simp add: fround_def Let_def)
  next
    case False
    with r show ?thesis by (simp add: fround_def Let_def)
  qed
qed

section \<open>Score conversion: the variance, the draw and the clamp\<close>

lemma scaled_doubt_unit:
  assumes "0 \<le> x" and "x \<le> 1"
  shows "\<exists>p. scaled_doubt (Fin x) = Fin p \<and> 0 \<le> p \<and> p \<le> 50"
proof -
  have "of_int 0 \<le> 1 - x" "1 - x \<le> of_int 1" using assms by simp_all
  then have "\<exists>r. fround (1 - x) = Fin r \<and> of_int 0 \<le> r \<and> r \<le> of_int 1"
    by (rule fround_between) simp_all
  then obtain r where r: "fround (1 - x) = Fin r" "0 \<le> r" "r \<le> 1" by auto
  have "of_int 0 \<le> r * 50" "r * 50 \<le> of_int 50" using r(2,3) by simp_all
  then have "\<exists>p. fround (r * 50) = Fin p \<and> of_int 0 \<le> p \<and> p \<le> of_int 50"
    by (rule fround_between) simp_all
  then obtain p where "fround (r * 50) = Fin p" "0 \<le> p" "p \<le> 50" by auto
  then show ?thesis
    by (simp add: scaled_doubt_def r(1))
qed

lemma variance_unit:
  assumes "0 \<le> x" and "x \<le> 1"
  shows "\<exists>v. variance (Fin x) = Inr v \<and> 0 \<le> v \<and> v \<le> 50"
proof -
  from scaled_doubt_unit [OF assms] obtain p
    where p: "scaled_doubt (Fin x) = Fin p" "0 \<le> p" "p \<le> 50" by blast
  have "\<lfloor>p\<rfloor> \<le> 50" using p(3) by (simp add: floor_le_iff)
  then show ?thesis
    using p(2) by (simp add: variance_def p(1))
qed

lemma scaled_doubt_sign_below:
  assumes "x \<le> 1" and "scaled_doubt (Fin x) = Fin p"
  shows "0 \<le> p"
proof -
  have "0 \<le> 1 - x" using assms(1) by simp
  then consider "fround (1 - x) = PosInf" | r where "fround (1 - x) = Fin r" "0 \<le> r"
    using fround_nonneg by blast
  then show ?thesis
  proof cases
    case 1
    with assms(2) show ?thesis by (simp add: scaled_doubt_def)
  next
    case 2
    then have "0 \<le> r * 50" by simp
    then consider "fround (r * 50) = PosInf" | q where "fround (r * 50) = Fin q" "0 \<le> q"
      using fround_nonneg by blast
    then show ?thesis
      using assms(2) 2(1) by cases (simp_all add: scaled_doubt_def)
  qed
qed

lemma scaled_doubt_sign_above:
  assumes "1 < x" and "scaled_doubt (Fin x) = Fin p"
  shows "p \<le> 0"
proof -
  have "1 - x \<le> 0" using assms(1) by simp
  then consider "fround (1 - x) = NegInf" | r where "fround (1 - x) = Fin r" "r \<le> 0"
    using fround_nonpos by blast
  then show ?thesis
  proof cases
    case 1
    with assms(2) show ?thesis by (simp add: scaled_doubt_def)
  next
    case 2
    then have "r * 50 \<le> 0" by simp
    then consider "fround (r * 50) = NegInf" | q where "fround (r * 50) = Fin q" "q \<le> 0"
      using fround_nonpos by blast
    then show ?thesis
      using assms(2) 2(1) by cases (simp_all add: scaled_doubt_def)
  qed
qed

lemma variance_floor:
  assumes "x \<le> 1" and "scaled_doubt (Fin x) = Fin p"
  shows "variance (Fin x) = Inr \<lfloor>p\<rfloor>"
  using scaled_doubt_sign_below [OF assms] by (simp add: variance_def assms(2))

lemma variance_ceiling:
  assumes "1 < x" and "scaled_doubt (Fin x) = Fin p"
  shows "variance (Fin x) = Inr \<lceil>p\<rceil>"
proof (cases "p = 0")
  case True
  then show ?thesis by (simp add: variance_def assms(2))
next
  case False
  with scaled_doubt_sign_above [OF assms] have "p < 0" by simp
  then show ?thesis by (simp add: variance_def assms(2))
qed

lemma variance_zero:
  assumes "1 < x" and "scaled_doubt (Fin x) = Fin p" and "- 1 < p"
  shows "variance (Fin x) = Inr 0"
proof -
  have "\<lceil>p\<rceil> = 0"
    by (rule ceiling_unique) (use assms(3) scaled_doubt_sign_above [OF assms(1,2)] in simp_all)
  then show ?thesis
    by (simp add: variance_ceiling [OF assms(1,2)])
qed

lemma variance_negative:
  assumes "1 < x" and "scaled_doubt (Fin x) = Fin p" and "p \<le> - 1"
  shows "\<exists>v. variance (Fin x) = Inr v \<and> v < 0"
  using assms(3) by (simp add: variance_ceiling [OF assms(1,2)])

lemma randint_ok:
  assumes "0 \<le> v" and "v < 2 ^ 63"
  shows "randint (- v) (v + 1) g = (Inr (adjustment_of v g), \<lambda>n. g (Suc n))"
proof -
  have "v + 1 - - v = 2 * v + 1" by simp
  then show ?thesis
    using assms by (simp add: randint_def adjustment_of_def Let_def)
qed

lemma randint_negative:
  assumes "v < 0"
  shows "randint (- v) (v + 1) g = (Inl (ValueError ''low >= high''), g)"
  using assms by (simp add: randint_def Let_def)

lemma randint_oversize:
  assumes "2 ^ 63 \<le> v"
  shows "randint (- v) (v + 1) g =
           (Inl (ValueError (if v = 2 ^ 63 then ''high is out of bounds for int64''
                             else ''low is out of bounds for int64'')), g)"
  using assms by (simp add: randint_def Let_def)

lemma adjustment_range: "0 \<le> v \<Longrightarrow> - v \<le> adjustment_of v g \<and> adjustment_of v g \<le> v"
proof -
  assume v: "0 \<le> v"
  then have pos: "0 < nat (2 * v + 1)" by simp
  have "g 0 mod nat (2 * v + 1) < nat (2 * v + 1)"
    using pos by (rule mod_less_divisor)
  then have "int (g 0 mod nat (2 * v + 1)) < 2 * v + 1"
    using v by linarith
  then show ?thesis
    unfolding adjustment_of_def by linarith
qed

lemma adjustment_hits:
  assumes "- v \<le> a" and "a \<le> v"
  shows "adjustment_of v (\<lambda>n. nat (a + v)) = a"
proof -
  have "nat (a + v) < nat (2 * v + 1)" using assms by linarith
  then have "nat (a + v) mod nat (2 * v + 1) = nat (a + v)" by simp
  then show ?thesis
    using assms by (simp add: adjustment_of_def)
qed

lemma adjustment_zero: "adjustment_of 0 g = 0"
  by (simp add: adjustment_of_def)

lemma convert_ok:
  assumes "variance c = Inr v" and "0 \<le> v" and "v < 2 ^ 63"
  shows "convert_category_to_score cat c g =
           (Inr (max 300 (min 850 (base_score cat + adjustment_of v g))), \<lambda>n. g (Suc n))"
  by (simp add: convert_category_to_score_def assms(1) randint_ok [OF assms(2,3)])

lemma convert_negative:
  assumes "variance c = Inr v" and "v < 0"
  shows "convert_category_to_score cat c g = (Inl (ValueError ''low >= high''), g)"
  by (simp add: convert_category_to_score_def assms(1) randint_negative [OF assms(2)])

lemma convert_oversize:
  assumes "variance c = Inr v" and "2 ^ 63 \<le> v"
  shows "\<exists>e. convert_category_to_score cat c g = (Inl e, g)"
  by (simp add: convert_category_to_score_def assms(1) randint_oversize [OF assms(2)])

lemma convert_no_variance:
  assumes "variance c = Inl e"
  shows "convert_category_to_score cat c g = (Inl e, g)"
  by (simp add: convert_category_to_score_def assms)

lemma convert_score_range:
  "convert_category_to_score cat c g = (Inr s, g') \<Longrightarrow> 300 \<le> s \<and> s \<le> 850"
  unfolding convert_category_to_score_def
  by (auto simp: Let_def split: prod.splits sum.splits)

lemma convert_unit:
  assumes "0 \<le> x" and "x \<le> 1"
  shows "\<exists>score g'. convert_category_to_score cat (Fin x) g = (Inr score, g') \<and>
                    300 \<le> score \<and> score \<le> 850"
proof -
  from variance_unit [OF assms] obtain v
    where v: "variance (Fin x) = Inr v" "0 \<le> v" "v \<le> 50" by blast
  have "v < 2 ^ 63" using v(3) by simp
  then show ?thesis
    by (simp add: convert_ok [OF v(1,2)])
qed

lemma possible_scores_eq:
  assumes "variance c = Inr v" and "0 \<le> v" and "v < 2 ^ 63"
  shows "possible_scores cat c = (\<lambda>a. max 300 (min 850 (base_score cat + a))) ` {- v .. v}"
proof (intro set_eqI iffI)
  fix s
  assume "s \<in> possible_scores cat c"
  then obtain g where "fst (convert_category_to_score cat c g) = Inr s"
    by (auto simp: possible_scores_def)
  then have s: "s = max 300 (min 850 (base_score cat + adjustment_of v g))"
    by (simp add: convert_ok [OF assms])
  have "adjustment_of v g \<in> {- v .. v}"
    using adjustment_range [OF assms(2)] by simp
  then show "s \<in> (\<lambda>a. max 300 (min 850 (base_score cat + a))) ` {- v .. v}"
    unfolding s by (rule imageI)
next
  fix s
  assume "s \<in> (\<lambda>a. max 300 (min 850 (base_score cat + a))) ` {- v .. v}"
  then obtain a where a: "- v \<le> a" "a \<le> v"
    and s: "s = max 300 (min 850 (base_score cat + a))"
    by auto
  have "fst (convert_category_to_score cat c (\<lambda>n. nat (a + v))) = Inr s"
    by (simp add: convert_ok [OF assms] adjustment_hits [OF a] s)
  then show "s \<in> possible_scores cat c"
    unfolding possible_scores_def by blast
qed

lemma base_score_values:
  "base_score 0 = 750" "base_score 1 = 580" "base_score 2 = 650"
  "cat \<notin> {0, 1, 2} \<Longrightarrow> base_score cat = 650"
  by (simp_all add: base_score_def base_scores_def)

section \<open>Double precision, evaluated\<close>

lemma literal_085: "default_confidence = Fin (7656119366529843 / 2 ^ 53)"
  by code_simp

lemma literal_088: "py_literal (88 / 100) = Fin double_088"
  by code_simp

lemma doubt_default: "scaled_doubt default_confidence = Fin (8444249301319681 / 2 ^ 50)"
  by code_simp

lemma doubt_088: "scaled_doubt (Fin double_088) = Fin 6"
  by code_simp

lemma doubt_075: "scaled_doubt (Fin (3 / 4)) = Fin (25 / 2)"
  by code_simp

lemma doubt_half: "scaled_doubt (Fin (1 / 2)) = Fin 25"
  by code_simp

lemma doubt_129: "scaled_doubt (Fin (129 / 128)) = Fin (- (25 / 64))"
  by code_simp

lemma doubt_65: "scaled_doubt (Fin (65 / 64)) = Fin (- (25 / 32))"
  by code_simp

lemma doubt_three_halves: "scaled_doubt (Fin (3 / 2)) = Fin (- 25)"
  by code_simp

lemma doubt_huge: "scaled_doubt (Fin (- (10 ^ 18))) = Fin (5 * 10 ^ 19)"
  by code_simp

lemma variance_default: "variance default_confidence = Inr 7"
  unfolding variance_def doubt_default by simp

lemma variance_huge: "variance (Fin (- (10 ^ 18))) = Inr (5 * 10 ^ 19)"
  unfolding variance_def doubt_huge by simp

lemma variance_samples:
  "variance (Fin double_088) = Inr 6"
  "variance (Fin (3 / 4)) = Inr 12"
  "variance (Fin (1 / 2)) = Inr 25"
  "variance (Fin (129 / 128)) = Inr 0"
  "variance (Fin (65 / 64)) = Inr 0"
  "variance (Fin (3 / 2)) = Inr (- 25)"
  by (simp_all add: variance_def doubt_088 doubt_075 doubt_half doubt_129
      doubt_65 doubt_three_halves)

text \<open>
  The sample confidences are doubles; nine tenths is not, and the literal \<^verbatim>\<open>0.9\<close> gives the
  variance 4 where exact arithmetic would give 5.
\<close>

lemma sample_doubles:
  "is_double (3 / 4)" "is_double (1 / 2)" "is_double (3 / 2)" "is_double (65 / 64)"
  "is_double (129 / 128)" "is_double double_088" "is_double (- (10 ^ 18))"
  "\<not> is_double (88 / 100)" "\<not> is_double (9 / 10)"
  by code_simp+

lemma literal_090: "py_literal (9 / 10) = Fin (8106479329266893 / 2 ^ 53)"
  by code_simp

lemma variance_090: "variance (py_literal (9 / 10)) = Inr 4"
  by code_simp

lemma variance_not_finite:
  "variance NaN = Inl (ValueError ''cannot convert float NaN to integer'')"
  "variance PosInf = Inl (OverflowError ''cannot convert float infinity to integer'')"
  "variance NegInf = Inl (OverflowError ''cannot convert float infinity to integer'')"
  by (simp_all add: variance_def scaled_doubt_def)

lemma rounding_samples:
  "py_literal (1 / 10) = Fin (3602879701896397 / 2 ^ 55)"
  "fround (2 ^ 53 + 1) = Fin (2 ^ 53)"
  "fround (2 ^ 53 + 3) = Fin (2 ^ 53 + 4)"
  "fround (1 / 3) = Fin (6004799503160661 / 2 ^ 54)"
  by code_simp+

section \<open>Prediction: the two result shapes\<close>

lemma failure_fields:
  "map_of (failure_result e) ''success'' = Some (PBool False)"
  "map_of (failure_result e) ''error'' = Some (PStr (exn_str e))"
  "map_of (failure_result e) ''prediction_category'' = Some PNone"
  "map_of (failure_result e) ''prediction_label'' = Some PNone"
  "map_of (failure_result e) ''credit_score_estimate'' = Some PNone"
  "map_of (failure_result e) ''confidence'' = Some PNone"
  by (simp_all add: failure_result_def)

lemma success_fields:
  "map_of (success_result p l s c pr fi mt u) ''success'' = Some (PBool True)"
  "map_of (success_result p l s c pr fi mt u) ''prediction_category'' = Some (PInt p)"
  "map_of (success_result p l s c pr fi mt u) ''prediction_label'' = Some (PStr l)"
  "map_of (success_result p l s c pr fi mt u) ''credit_score_estimate'' = Some (PInt s)"
  "map_of (success_result p l s c pr fi mt u) ''confidence'' = Some (PFloat c)"
  "map_of (success_result p l s c pr fi mt u) ''probabilities'' = Some pr"
  "map_of (success_result p l s c pr fi mt u) ''feature_importance'' = Some fi"
  "map_of (success_result p l s c pr fi mt u) ''model_type'' = Some (PStr mt)"
  "map_of (success_result p l s c pr fi mt u) ''features_used'' = Some u"
  by (simp_all add: success_result_def)

lemma predict_body_Inr:
  "predict_body svc fs g = (Inr r, g') \<longleftrightarrow>
     (\<exists>m prediction label score.
        fst (validate_features svc fs) = Inr True \<and> model svc = Some m \<and>
        predict m fs = Inr prediction \<and>
        convert_category_to_score prediction (fst (proba_step svc m fs)) g = (Inr score, g') \<and>
        map_of (credit_categories svc) prediction = Some label \<and>
        r = success_result prediction label score (fst (proba_step svc m fs))
              (snd (proba_step svc m fs)) (importance_step svc m) (type_name m)
              (features_used (feature_names svc) fs))"
  unfolding predict_body_def
  by (auto simp: Let_def split: sum.splits option.splits prod.splits if_splits)

lemma predict_of_body_Inl:
  "predict_body svc fs g = (Inl e, g') \<Longrightarrow> predict_credit_score svc fs g = (failure_result e, g')"
  by (simp add: predict_credit_score_def)

lemma predict_of_body_Inr:
  "predict_body svc fs g = (Inr r, g') \<Longrightarrow> predict_credit_score svc fs g = (r, g')"
  by (simp add: predict_credit_score_def)

lemma predict_success_iff:
  "map_of (fst (predict_credit_score svc fs g)) ''success'' = Some (PBool True) \<longleftrightarrow>
     (\<exists>r. fst (predict_body svc fs g) = Inr r)"
proof (cases "predict_body svc fs g")
  case (Pair x g')
  show ?thesis
  proof (cases x)
    case (Inl e)
    with Pair show ?thesis
      by (simp add: predict_of_body_Inl failure_fields)
  next
    case (Inr r)
    with Pair have b: "predict_body svc fs g = (Inr r, g')" by simp
    from b [unfolded predict_body_Inr] obtain p l s c pr fi mt u
      where "r = success_result p l s c pr fi mt u" by blast
    with b show ?thesis
      by (simp add: predict_of_body_Inr success_fields)
  qed
qed

section \<open>Validation\<close>

lemma show_nat_7: "show_nat 7 = ''7''"
  by (simp add: show_nat.simps [of 7])

lemma length7E:
  assumes "length xs = 7"
  obtains a b c d e f k where "xs = [a, b, c, d, e, f, k]"
proof -
  from assms have "\<exists>a b c d e f k. xs = [a, b, c, d, e, f, k]"
    by (auto simp: length_Suc_conv eval_nat_numeral)
  then show ?thesis using that by blast
qed

lemma length_FEATURE_NAMES: "length FEATURE_NAMES = 7"
  by (simp add: FEATURE_NAMES_def)

lemma validate_wrong_length:
  assumes "service_inv svc" and "length features \<noteq> 7"
  shows "validate_features svc features =
           (Inr False, [''Expected 7 features, got '' @ show_nat (length features)])"
proof -
  have "feature_names svc = FEATURE_NAMES"
    using assms(1) by (simp add: service_inv_def)
  then show ?thesis
    using assms(2) by (simp add: validate_features_def length_FEATURE_NAMES show_nat_7)
qed

lemma credit_mix_member:
  "list_ex (py_eq mix) [Fin 0, Fin 1, Fin 2] \<longleftrightarrow> mix \<in> {Fin 0, Fin 1, Fin 2}"
  by (auto simp: py_eq_def)

lemma validate_seven:
  assumes "service_inv svc"
  shows "validate_features svc [debt, mix, age, balance, behaviour, income, delayed] =
           (if py_lt debt (Fin 0) then (Inr False, [''Outstanding debt cannot be negative''])
            else if mix \<notin> {Fin 0, Fin 1, Fin 2} then
              (Inr False, [''Credit mix must be 0, 1, or 2''])
            else if py_lt age (Fin 0) then
              (Inr False, [''Credit history age cannot be negative''])
            else if py_lt income (Fin 0) then
              (Inr False, [''Annual income cannot be negative''])
            else if py_lt delayed (Fin 0) then
              (Inr False, [''Delayed payments cannot be negative''])
            else (Inr True, []))"
  using assms
  unfolding validate_features_def credit_mix_member
  by (simp add: service_inv_def FEATURE_NAMES_def)

text \<open>Against zero, "not less" is "at least, or NaN".\<close>

lemma not_lt_zero: "\<not> py_lt x (Fin 0) \<longleftrightarrow> py_ge x (Fin 0) \<or> x = NaN"
  by (cases x) (auto simp: py_ge_def py_eq_def)

lemma py_ge_NaN: "\<not> py_ge NaN y"
  by (cases y) (simp_all add: py_ge_def py_eq_def)

section \<open>Prediction: failure paths\<close>

lemma predict_invalid:
  "fst (validate_features svc features) = Inr False \<Longrightarrow>
     predict_credit_score svc features g =
       (failure_result (ValueError ''Invalid features provided''), g)"
  by (simp add: predict_credit_score_def predict_body_def)

lemma predict_validation_raises:
  "fst (validate_features svc features) = Inl e \<Longrightarrow>
     predict_credit_score svc features g = (failure_result e, g)"
  by (simp add: predict_credit_score_def predict_body_def)

lemma predict_not_loaded:
  "fst (validate_features svc features) = Inr True \<Longrightarrow> model svc = None \<Longrightarrow>
     predict_credit_score svc features g =
       (failure_result (RuntimeError ''Model not loaded''), g)"
  by (simp add: predict_credit_score_def predict_body_def)

lemma predict_unloaded_fails:
  assumes "model svc = None"
  shows "\<exists>e. predict_credit_score svc features g = (failure_result e, g)"
proof (cases "fst (validate_features svc features)")
  case (Inl e)
  then show ?thesis by (auto simp: predict_validation_raises)
next
  case (Inr v)
  then show ?thesis
    using assms by (cases v) (auto simp: predict_invalid predict_not_loaded)
qed

lemma predict_two_shapes:
  "map_of (fst (predict_credit_score svc features g)) ''success'' = Some (PBool True) \<or>
   (\<exists>e. fst (predict_credit_score svc features g) = failure_result e)"
proof (cases "predict_body svc features g")
  case (Pair x g')
  show ?thesis
  proof (cases x)
    case (Inl e)
    with Pair show ?thesis by (auto simp: predict_of_body_Inl)
  next
    case (Inr r)
    with Pair have "fst (predict_body svc features g) = Inr r" by simp
    then show ?thesis using predict_success_iff by blast
  qed
qed

lemma predict_body_loaded:
  assumes "fst (validate_features svc features) = Inr True"
    and "model svc = Some m"
    and "predict m features = Inr p"
  shows "predict_body svc features g =
           (case convert_category_to_score p (fst (proba_step svc m features)) g of
              (Inl e, g') \<Rightarrow> (Inl e, g')
            | (Inr score, g') \<Rightarrow>
                (case map_of (credit_categories svc) p of
                   None \<Rightarrow> (Inl (KeyError p), g')
                 | Some label \<Rightarrow>
                     (Inr (success_result p label score (fst (proba_step svc m features))
                             (snd (proba_step svc m features)) (importance_step svc m)
                             (type_name m) (features_used (feature_names svc) features)),
                      g')))"
  using assms by (simp add: predict_body_def split_beta Let_def)

lemma predict_unknown_class:
  assumes "fst (validate_features svc features) = Inr True"
    and "model svc = Some m"
    and "predict m features = Inr c"
    and "map_of (credit_categories svc) c = None"
  shows "\<exists>e. fst (predict_credit_score svc features g) = failure_result e"
proof (cases "convert_category_to_score c (fst (proba_step svc m features)) g")
  case (Pair x g')
  show ?thesis
    unfolding predict_credit_score_def predict_body_loaded [OF assms(1-3)] Pair
    using assms(4) by (cases x) auto
qed

lemma predict_unknown_class_drawn:
  assumes "fst (validate_features svc features) = Inr True"
    and "model svc = Some m"
    and "predict m features = Inr c"
    and "map_of (credit_categories svc) c = None"
    and "variance (fst (proba_step svc m features)) = Inr v"
    and "0 \<le> v" and "v < 2 ^ 63"
  shows "fst (predict_credit_score svc features g) = failure_result (KeyError c)"
  unfolding predict_credit_score_def predict_body_loaded [OF assms(1-3)]
  using assms(4) by (simp add: convert_ok [OF assms(5-7)])

lemma categories_unknown:
  "service_inv svc \<Longrightarrow> c \<notin> {0, 1, 2} \<Longrightarrow> map_of (credit_categories svc) c = None"
  by (simp add: service_inv_def CREDIT_CATEGORIES_def)

section \<open>The sample objects, evaluated\<close>

lemma service_of_fields:
  "model (service_of m) = m"
  "feature_names (service_of m) = FEATURE_NAMES"
  "credit_categories (service_of m) = CREDIT_CATEGORIES"
  "model_path (service_of m) = ''models/credit_classifier.joblib''"
  by (simp_all add: service_of_def)

lemma service_of_inv: "service_inv (service_of m)"
  by (simp add: service_inv_def service_of_fields)

lemma validate_good: "validate_features (service_of m) good_profile = (Inr True, [])"
  by (simp add: good_profile_def validate_seven [OF service_of_inv])

lemma validate_bad:
  "validate_features (service_of m) bad_profile =
     (Inr False, [''Outstanding debt cannot be negative''])"
  by (simp add: bad_profile_def validate_seven [OF service_of_inv])

lemma validate_nan: "validate_features (service_of m) nan_profile = (Inr True, [])"
  by (simp add: nan_profile_def validate_seven [OF service_of_inv])

lemma proba_forest:
  "proba_step (service_of m) (forest c) fs =
     (Fin (3 / 4),
      PDict [(PStr ''Good'', PFloat (Fin (1 / 8))), (PStr ''Poor'', PFloat (Fin (3 / 4))),
             (PStr ''Standard'', PFloat (Fin (1 / 8)))])"
  by (simp add: proba_step_def forest_def service_of_def CREDIT_CATEGORIES_def
      category_key_def py_max_def)

lemma convert_sample:
  "convert_category_to_score 1 (Fin (3 / 4)) counting = (Inr 571, \<lambda>n. counting (Suc n))"
proof -
  have a: "adjustment_of 12 counting = - 9"
    by (simp add: adjustment_of_def counting_def)
  show ?thesis
    by (simp add: convert_ok [OF variance_samples(2)] a base_score_values)
qed

lemma predict_sample:
  "predict_credit_score (service_of (Some (forest 1))) good_profile counting =
     (success_result 1 ''Poor'' 571 (Fin (3 / 4))
        (PDict [(PStr ''Good'', PFloat (Fin (1 / 8))), (PStr ''Poor'', PFloat (Fin (3 / 4))),
                (PStr ''Standard'', PFloat (Fin (1 / 8)))])
        (importance_step (service_of (Some (forest 1))) (forest 1))
        ''RandomForestClassifier''
        (features_used FEATURE_NAMES good_profile),
      \<lambda>n. counting (Suc n))"
proof -
  have p: "predict (forest 1) good_profile = Inr 1"
    "type_name (forest 1) = ''RandomForestClassifier''"
    by (simp_all add: forest_def)
  have l: "map_of CREDIT_CATEGORIES 1 = Some ''Poor''"
    by (simp add: CREDIT_CATEGORIES_def)
  show ?thesis
    unfolding predict_credit_score_def
    by (simp add: predict_body_loaded [OF _ _ p(1)] validate_good service_of_fields p l
        proba_forest convert_sample)
qed

lemma proba_bare: "proba_step svc (bare c) fs = (default_confidence, PNone)"
  by (simp add: proba_step_def bare_def)

lemma bare_fields:
  "predict (bare c) fs = Inr c"
  "type_name (bare c) = ''DummyClassifier''"
  "predict_proba (bare c) = None"
  by (simp_all add: bare_def)

lemma show_int_5: "show_int 5 = ''5''"
  by (simp add: show_int_def show_nat.simps [of 5])

section \<open>The probability step\<close>

lemma length_le3E:
  assumes "length (p :: 'a list) \<le> 3"
  obtains "p = []" | a where "p = [a]" | a b where "p = [a, b]" | a b c where "p = [a, b, c]"
proof -
  from assms have "p = [] \<or> (\<exists>a. p = [a]) \<or> (\<exists>a b. p = [a, b]) \<or> (\<exists>a b c. p = [a, b, c])"
    by (cases p; cases "tl p"; cases "tl (tl p)"; cases "tl (tl (tl p))") auto
  then show ?thesis using that by blast
qed

lemma label_probabilities:
  assumes "length proba \<le> 3"
  shows "enum_dict (category_key CREDIT_CATEGORIES) 0 proba [] =
           Inr (zip (map (PStr \<circ> snd) CREDIT_CATEGORIES) (map (PFloat \<circ> Fin) proba))"
  using assms
  by (rule length_le3E) (simp_all add: category_key_def CREDIT_CATEGORIES_def)

lemma py_max_nonempty: "xs \<noteq> [] \<Longrightarrow> py_max xs = Inr (Max (set xs))"
proof (cases xs)
  case Nil
  then show "xs \<noteq> [] \<Longrightarrow> py_max xs = Inr (Max (set xs))" by simp
next
  case (Cons x ys)
  have "Max (set (x # ys)) = fold max ys x"
    by (rule Max.set_eq_fold)
  then show "py_max xs = Inr (Max (set xs))"
    unfolding Cons py_max_def by simp
qed

lemma proba_step_absent:
  "predict_proba m = None \<Longrightarrow> proba_step svc m features = (default_confidence, PNone)"
  by (simp add: proba_step_def)

lemma proba_step_estimated:
  assumes "service_inv svc"
    and "predict_proba m = Some estimate"
    and "estimate features = Inr proba"
    and "proba \<noteq> []"
    and "length proba \<le> 3"
  shows "proba_step svc m features =
           (Fin (Max (set proba)),
            PDict (zip (map (PStr \<circ> snd) CREDIT_CATEGORIES) (map (PFloat \<circ> Fin) proba)))"
proof -
  have cats: "credit_categories svc = CREDIT_CATEGORIES"
    using assms(1) by (simp add: service_inv_def)
  show ?thesis
    unfolding proba_step_def
    by (simp add: assms(2,3) cats label_probabilities [OF assms(5)] py_max_nonempty [OF assms(4)])
qed

lemma predict_success_result:
  assumes "model svc = Some m"
    and "map_of (fst (predict_credit_score svc features g)) ''success'' = Some (PBool True)"
  shows "\<exists>p l s. fst (predict_credit_score svc features g) =
           success_result p l s (fst (proba_step svc m features))
             (snd (proba_step svc m features)) (importance_step svc m) (type_name m)
             (features_used (feature_names svc) features)"
proof -
  from assms(2) obtain r where "fst (predict_body svc features g) = Inr r"
    unfolding predict_success_iff by blast
  then obtain g' where b: "predict_body svc features g = (Inr r, g')"
    by (cases "predict_body svc features g") simp
  from b [unfolded predict_body_Inr] assms(1) obtain p l s
    where "r = success_result p l s (fst (proba_step svc m features))
             (snd (proba_step svc m features)) (importance_step svc m) (type_name m)
             (features_used (feature_names svc) features)"
    by auto
  then show ?thesis
    by (auto simp: predict_of_body_Inr [OF b])
qed

section \<open>Introspection and loading\<close>

lemma info_keys:
  "model svc = Some m \<Longrightarrow>
     map fst (get_model_info svc) =
       [''model_type'', ''feature_names'', ''credit_categories'', ''model_loaded'']
       @ (if n_estimators m = None then [] else [''n_estimators''])
       @ (if max_depth m = None then [] else [''max_depth''])
       @ (if random_state m = None then [] else [''random_state''])"
  by (cases "n_estimators m"; cases "max_depth m"; cases "random_state m")
    (simp_all add: get_model_info_def add_attr_def)

lemma info_fixed:
  assumes "model svc = Some m"
  shows "map_of (get_model_info svc) ''model_type'' = Some (PStr (type_name m))"
    and "map_of (get_model_info svc) ''feature_names'' =
           Some (PList (map PStr (feature_names svc)))"
    and "map_of (get_model_info svc) ''credit_categories'' =
           Some (PDict (map (\<lambda>(k, l). (PInt k, PStr l)) (credit_categories svc)))"
    and "map_of (get_model_info svc) ''model_loaded'' = Some (PBool True)"
  using assms
  by (cases "n_estimators m"; cases "max_depth m"; cases "random_state m";
      simp add: get_model_info_def add_attr_def)+

lemma info_optional:
  assumes "model svc = Some m"
  shows "map_of (get_model_info svc) ''n_estimators'' = n_estimators m"
    and "map_of (get_model_info svc) ''max_depth'' = max_depth m"
    and "map_of (get_model_info svc) ''random_state'' = random_state m"
  using assms
  by (cases "n_estimators m"; cases "max_depth m"; cases "random_state m";
      simp add: get_model_info_def add_attr_def)+

lemma load_model_cases:
  "load_model e svc =
     (if \<not> path_exists e (model_path svc) then
        Inl (FileNotFoundError (''Model file not found: '' @ model_path svc))
      else case joblib_load e (model_path svc) of
        Inl err \<Rightarrow> Inl err
      | Inr m \<Rightarrow> Inr (svc\<lparr>model := Some m\<rparr>))"
  by (simp add: load_model_def split: sum.splits)

lemma init_success:
  "init e path = Inr svc \<longleftrightarrow>
     path_exists e path \<and>
     (\<exists>m. joblib_load e path = Inr m \<and>
          svc = \<lparr>model_path = path, model = Some m,
                 feature_names = FEATURE_NAMES, credit_categories = CREDIT_CATEGORIES\<rparr>)"
  by (auto simp: init_def load_model_cases split: sum.splits)

lemma init_failure:
  "init e path = Inl err \<longleftrightarrow>
     (\<not> path_exists e path \<and> err = FileNotFoundError (''Model file not found: '' @ path)) \<or>
     (path_exists e path \<and> joblib_load e path = Inl err)"
  by (auto simp: init_def load_model_cases split: sum.splits)

section \<open>The batch loop\<close>

lemma batch_loop_acc:
  "batch_loop svc fl acc g =
     (acc @ fst (batch_loop svc fl [] g), snd (batch_loop svc fl [] g))"
proof (induction fl arbitrary: acc g)
  case Nil
  show ?case by simp
next
  case (Cons features rest)
  obtain r g' where p: "predict_credit_score svc features g = (r, g')"
    by (cases "predict_credit_score svc features g")
  have "batch_loop svc (features # rest) acc g = batch_loop svc rest (acc @ [r]) g'"
    by (simp add: p)
  also have "\<dots> = ((acc @ [r]) @ fst (batch_loop svc rest [] g'), snd (batch_loop svc rest [] g'))"
    by (rule Cons.IH)
  also have "\<dots> = (acc @ fst (batch_loop svc rest [r] g'), snd (batch_loop svc rest [r] g'))"
    by (simp add: Cons.IH [of "[r]"])
  also have "\<dots> = (acc @ fst (batch_loop svc (features # rest) [] g),
                    snd (batch_loop svc (features # rest) [] g))"
    by (simp add: p)
  finally show ?case .
qed

lemma batch_predict_Nil: "batch_predict svc [] g = ([], g)"
  by (simp add: batch_predict_def)

lemma batch_predict_Cons:
  "batch_predict svc (features # rest) g =
     (fst (predict_credit_score svc features g)
        # fst (batch_predict svc rest (snd (predict_credit_score svc features g))),
      snd (batch_predict svc rest (snd (predict_credit_score svc features g))))"
proof -
  obtain r g' where p: "predict_credit_score svc features g = (r, g')"
    by (cases "predict_credit_score svc features g")
  have "batch_predict svc (features # rest) g = batch_loop svc rest [r] g'"
    by (simp add: batch_predict_def p)
  also have "\<dots> = ([r] @ fst (batch_loop svc rest [] g'), snd (batch_loop svc rest [] g'))"
    by (rule batch_loop_acc)
  finally show ?thesis
    by (simp add: p batch_predict_def)
qed

lemma batch_predict_append:
  "batch_predict svc (xs @ ys) g =
     (fst (batch_predict svc xs g) @ fst (batch_predict svc ys (snd (batch_predict svc xs g))),
      snd (batch_predict svc ys (snd (batch_predict svc xs g))))"
  by (induction xs arbitrary: g) (simp_all add: batch_predict_Nil batch_predict_Cons)

lemma batch_predict_length: "length (fst (batch_predict svc fl g)) = length fl"
  by (induction fl arbitrary: g) (simp_all add: batch_predict_Nil batch_predict_Cons)

lemma batch_predict_nth:
  assumes "i < length fl"
  shows "fst (batch_predict svc fl g) ! i =
           fst (predict_credit_score svc (fl ! i) (snd (batch_predict svc (take i fl) g)))"
proof -
  have fl: "fl = take i fl @ (fl ! i) # drop (Suc i) fl"
    using assms by (simp add: id_take_nth_drop)
  have len: "length (fst (batch_predict svc (take i fl) g)) = i"
    using assms by (simp add: batch_predict_length)
  have "fst (batch_predict svc fl g) =
          fst (batch_predict svc (take i fl) g)
          @ fst (batch_predict svc ((fl ! i) # drop (Suc i) fl)
                   (snd (batch_predict svc (take i fl) g)))"
    by (subst fl) (simp add: batch_predict_append)
  then show ?thesis
    by (simp add: nth_append len batch_predict_Cons)
qed

lemma importance_bare: "importance_step svc (bare c) = PNone"
  by (simp add: importance_step_def bare_def)

lemma predict_bare_standard:
  "predict_credit_score (service_of (Some (bare 2))) good_profile g =
     (success_result 2 ''Standard'' (650 + adjustment_of 7 g) (default_confidence) PNone
        PNone ''DummyClassifier'' (features_used FEATURE_NAMES good_profile),
      \<lambda>n. g (Suc n))"
proof -
  have r: "- 7 \<le> adjustment_of 7 g \<and> adjustment_of 7 g \<le> 7"
    by (rule adjustment_range) simp
  have l: "map_of CREDIT_CATEGORIES 2 = Some ''Standard''"
    by (simp add: CREDIT_CATEGORIES_def)
  have c: "convert_category_to_score 2 (default_confidence) g =
             (Inr (650 + adjustment_of 7 g), \<lambda>n. g (Suc n))"
    using r by (simp add: convert_ok [OF variance_default] base_score_values)
  show ?thesis
    unfolding predict_credit_score_def
    by (simp add: predict_body_loaded [OF _ _ bare_fields(1)] validate_good service_of_fields
        proba_bare importance_bare c l bare_fields)
qed

section \<open>Properties of the service\<close>

text \<open>
  C1. For every category id and every confidence in \<open>[0, 1]\<close>,
  \<^verbatim>\<open>convert_category_to_score\<close> returns an integer of the closed interval \<open>[300, 850]\<close>
  (it returns, and the value is in range); consequently every success result of
  \<^verbatim>\<open>predict_credit_score\<close> carries a \<^verbatim>\<open>credit_score_estimate\<close> in \<open>[300, 850]\<close>.
\<close>

theorem score_within_scale:
  "(0 \<le> confidence \<and> confidence \<le> 1 \<longrightarrow>
      (\<exists>score g'. convert_category_to_score category (Fin confidence) g = (Inr score, g') \<and>
                  300 \<le> score \<and> score \<le> 850)) \<and>
   (map_of (fst (predict_credit_score svc features h)) ''success'' = Some (PBool True) \<longrightarrow>
      (\<exists>score. map_of (fst (predict_credit_score svc features h)) ''credit_score_estimate''
                  = Some (PInt score) \<and> 300 \<le> score \<and> score \<le> 850))"
proof (intro conjI impI)
  assume "0 \<le> confidence \<and> confidence \<le> 1"
  then have "0 \<le> confidence" and "confidence \<le> 1" by simp_all
  then show "\<exists>score g'. convert_category_to_score category (Fin confidence) g =
                     (Inr score, g') \<and> 300 \<le> score \<and> score \<le> 850"
    by (rule convert_unit)
next
  assume "map_of (fst (predict_credit_score svc features h)) ''success'' = Some (PBool True)"
  then obtain r where "fst (predict_body svc features h) = Inr r"
    unfolding predict_success_iff by blast
  then obtain h' where b: "predict_body svc features h = (Inr r, h')"
    by (cases "predict_body svc features h") simp
  from b [unfolded predict_body_Inr] obtain p l s c pr fi mt u
    where conv: "convert_category_to_score p c h = (Inr s, h')"
      and r: "r = success_result p l s c pr fi mt u"
    by blast
  have "300 \<le> s \<and> s \<le> 850"
    using conv by (rule convert_score_range)
  then show "\<exists>score. map_of (fst (predict_credit_score svc features h)) ''credit_score_estimate''
                      = Some (PInt score) \<and> 300 \<le> score \<and> score \<le> 850"
    by (simp add: predict_of_body_Inr [OF b] r success_fields)
qed

theorem score_within_scale_witness:
  "(0 \<le> (3 / 4 :: real) \<and> (3 / 4 :: real) \<le> 1) \<and>
   fst (convert_category_to_score 1 (Fin (3 / 4)) counting) = Inr 571 \<and>
   map_of (fst (predict_credit_score (service_of (Some (forest 1))) good_profile counting))
     ''success'' = Some (PBool True) \<and>
   map_of (fst (predict_credit_score (service_of (Some (forest 1))) good_profile counting))
     ''credit_score_estimate'' = Some (PInt 571)"
  using score_within_scale [of "3 / 4" 1 counting "service_of (Some (forest 1))"
      good_profile counting]
  by (simp add: predict_sample convert_sample success_fields)

text \<open>
  C2. \<^verbatim>\<open>predict_credit_score\<close> never raises to its caller. When validation fails, or the model
  handle is absent, it returns the failure object: \<open>success\<close> false, the exception's message
  as \<open>error\<close>, and the four prediction fields null. Every other exception of the body is
  turned into the same object by the handler, so each call returns either a success result or
  a failure object.
\<close>

theorem predict_never_raises:
  "(fst (validate_features svc features) = Inr False \<longrightarrow>
      predict_credit_score svc features g =
        (failure_result (ValueError ''Invalid features provided''), g)) \<and>
   (model svc = None \<longrightarrow>
      (\<exists>e. predict_credit_score svc features g = (failure_result e, g)) \<and>
      (fst (validate_features svc features) = Inr True \<longrightarrow>
         predict_credit_score svc features g =
           (failure_result (RuntimeError ''Model not loaded''), g))) \<and>
   (\<forall>e g'. predict_body svc features g = (Inl e, g') \<longrightarrow>
      predict_credit_score svc features g = (failure_result e, g')) \<and>
   (map_of (fst (predict_credit_score svc features g)) ''success'' = Some (PBool True) \<or>
    (\<exists>e. fst (predict_credit_score svc features g) = failure_result e)) \<and>
   (\<forall>e. map_of (failure_result e) ''success'' = Some (PBool False) \<and>
        map_of (failure_result e) ''error'' = Some (PStr (exn_str e)) \<and>
        map_of (failure_result e) ''prediction_category'' = Some PNone \<and>
        map_of (failure_result e) ''prediction_label'' = Some PNone \<and>
        map_of (failure_result e) ''credit_score_estimate'' = Some PNone \<and>
        map_of (failure_result e) ''confidence'' = Some PNone)"
proof (intro conjI impI allI)
  show "map_of (fst (predict_credit_score svc features g)) ''success'' = Some (PBool True) \<or>
        (\<exists>e. fst (predict_credit_score svc features g) = failure_result e)"
    by (rule predict_two_shapes)
qed (simp_all add: predict_invalid predict_not_loaded predict_unloaded_fails
    predict_of_body_Inl failure_fields)

theorem predict_never_raises_witness:
  "fst (validate_features (service_of (Some (forest 1))) bad_profile) = Inr False \<and>
   predict_credit_score (service_of (Some (forest 1))) bad_profile counting =
     (failure_result (ValueError ''Invalid features provided''), counting) \<and>
   model (service_of None) = None \<and>
   fst (validate_features (service_of None) good_profile) = Inr True \<and>
   predict_credit_score (service_of None) good_profile counting =
     (failure_result (RuntimeError ''Model not loaded''), counting) \<and>
   map_of (fst (predict_credit_score (service_of None) good_profile counting)) ''error'' =
     Some (PStr ''Model not loaded'') \<and>
   fst (predict_body (service_of (Some (bare 5))) good_profile counting) = Inl (KeyError 5) \<and>
   fst (predict_credit_score (service_of (Some (bare 5))) good_profile counting) =
     failure_result (KeyError 5)"
proof -
  have b: "predict_body (service_of (Some (bare 5))) good_profile counting =
             (Inl (KeyError 5), \<lambda>n. counting (Suc n))"
    by (simp add: predict_body_loaded [OF _ _ bare_fields(1)] validate_good service_of_fields
        proba_bare convert_ok [OF variance_default] CREDIT_CATEGORIES_def)
  show ?thesis
    using predict_never_raises [of "service_of (Some (forest 1))" bad_profile counting]
      predict_never_raises [of "service_of None" good_profile counting]
      predict_never_raises [of "service_of (Some (bare 5))" good_profile counting]
    by (simp add: validate_good validate_bad service_of_fields b)
qed

text \<open>
  C3, as the code has it. On a service whose schema is the seven feature names,
  \<^verbatim>\<open>validate_features\<close> returns true if and only if the list has exactly seven entries,
  \<open>Outstanding_Debt\<close> is at least 0 or NaN, \<open>Credit_Mix\<close> is one of 0, 1, 2 (any other
  value, integral or not, is rejected), and each of \<open>Credit_History_Age\<close>, \<open>Annual_Income\<close>
  and \<open>Num_of_Delayed_Payment\<close> is at least 0 or NaN: the code tests \<open>x < 0\<close>, which is false
  of NaN. \<open>Monthly_Balance\<close> and \<open>Payment_Behaviour\<close> (positions 3 and 4) never change the
  verdict, and the one line printed is that of the first violated rule, in the order of the
  rules.
\<close>

theorem validate_features_rules:
  assumes "service_inv svc"
  shows "fst (validate_features svc features) =
           Inr (length features = 7 \<and>
                (py_ge (features ! 0) (Fin 0) \<or> features ! 0 = NaN) \<and>
                features ! 1 \<in> {Fin 0, Fin 1, Fin 2} \<and>
                (py_ge (features ! 2) (Fin 0) \<or> features ! 2 = NaN) \<and>
                (py_ge (features ! 5) (Fin 0) \<or> features ! 5 = NaN) \<and>
                (py_ge (features ! 6) (Fin 0) \<or> features ! 6 = NaN)) \<and>
         fst (validate_features svc (features[3 := balance, 4 := behaviour])) =
           fst (validate_features svc features) \<and>
         snd (validate_features svc features) =
           (if length features \<noteq> 7 then
              [''Expected 7 features, got '' @ show_nat (length features)]
            else if py_lt (features ! 0) (Fin 0) then [''Outstanding debt cannot be negative'']
            else if features ! 1 \<notin> {Fin 0, Fin 1, Fin 2} then
              [''Credit mix must be 0, 1, or 2'']
            else if py_lt (features ! 2) (Fin 0) then
              [''Credit history age cannot be negative'']
            else if py_lt (features ! 5) (Fin 0) then [''Annual income cannot be negative'']
            else if py_lt (features ! 6) (Fin 0) then
              [''Delayed payments cannot be negative'']
            else [])"
proof (cases "length features = 7")
  case True
  then obtain a b c d e f k where fs: "features = [a, b, c, d, e, f, k]"
    by (rule length7E)
  have upd: "features[3 := balance, 4 := behaviour] = [a, b, c, balance, behaviour, f, k]"
    by (simp add: fs eval_nat_numeral)
  have nth: "features ! 0 = a" "features ! 1 = b" "features ! 2 = c"
    "features ! 5 = f" "features ! 6 = k"
    by (simp_all add: fs eval_nat_numeral)
  show ?thesis
    unfolding upd nth not_lt_zero [symmetric]
    unfolding fs validate_seven [OF assms]
    by simp
next
  case False
  then have "length (features[3 := balance, 4 := behaviour]) \<noteq> 7" by simp
  then show ?thesis
    using False by (simp add: validate_wrong_length [OF assms])
qed

theorem validate_features_rules_witness:
  "service_inv (service_of None) \<and>
   validate_features (service_of None) good_profile = (Inr True, []) \<and>
   validate_features (service_of None) nan_profile = (Inr True, []) \<and>
   validate_features (service_of None)
     [Fin 5000, Fin (3 / 2), Fin (- 36), Fin 2500, Fin 85, Fin 60000, Fin (- 2)] =
     (Inr False, [''Credit mix must be 0, 1, or 2'']) \<and>
   fst (validate_features (service_of None)
          [Fin 5000, Fin 1, Fin 36, Fin (- 2500), NaN, PosInf, Fin 2]) = Inr True \<and>
   fst (validate_features (service_of None)
          [Fin 5000, Fin 1, Fin 36, Fin 2500, Fin 85, NegInf, Fin 2]) = Inr False \<and>
   fst (validate_features (service_of None) [Fin 1, Fin 2, Fin 3]) = Inr False"
  using validate_features_rules [of "service_of None" good_profile NaN NaN]
    validate_features_rules [of "service_of None" nan_profile NaN NaN]
    validate_features_rules [of "service_of None"
      "[Fin 5000, Fin (3 / 2), Fin (- 36), Fin 2500, Fin 85, Fin 60000, Fin (- 2)]" NaN NaN]
    validate_features_rules [of "service_of None"
      "[Fin 5000, Fin 1, Fin 36, Fin 2500, Fin 85, PosInf, Fin 2]" "Fin (- 2500)" NaN]
    validate_features_rules [of "service_of None"
      "[Fin 5000, Fin 1, Fin 36, Fin 2500, Fin 85, NegInf, Fin 2]" NaN NaN]
    validate_features_rules [of "service_of None" "[Fin 1, Fin 2, Fin 3]" NaN NaN]
  by (simp add: service_of_inv validate_good validate_nan
      validate_seven [OF service_of_inv] validate_wrong_length [OF service_of_inv])

text \<open>
  C3 as stated requires \<open>Outstanding_Debt \<ge> 0\<close>. The vector that the command line parses
  from \<^verbatim>\<open>nan 1 36 2500 85 60000 2\<close> has seven entries and a NaN debt, which is not at least
  0, and validation returns true.
\<close>

theorem nan_passes_validation_counterexample:
  "length nan_profile = 7 \<and> nan_profile ! 0 = NaN \<and>
   \<not> py_ge (nan_profile ! 0) (Fin 0) \<and>
   validate_features (service_of None) nan_profile = (Inr True, [])"
proof -
  have "nan_profile ! 0 = NaN" "length nan_profile = 7"
    by (simp_all add: nan_profile_def)
  then show ?thesis
    by (simp add: validate_nan py_ge_NaN)
qed

text \<open>
  C4. In a successful prediction on a service with the fixed category map: when the model has
  no probability-estimation capability, \<open>confidence\<close> is exactly the float 0.85 and \<open>probabilities\<close> is
  null; when probability estimation succeeds (the capability returns a non-empty vector with
  at most one probability per category, so that nothing in the step raises), \<open>probabilities\<close>
  maps the category labels, in the order of the category map, to the probabilities, one entry
  per class, and \<open>confidence\<close> is the maximum of those probabilities.
\<close>

theorem confidence_and_probabilities:
  assumes "service_inv svc"
    and "model svc = Some m"
    and "map_of (fst (predict_credit_score svc features g)) ''success'' = Some (PBool True)"
  shows "(predict_proba m = None \<longrightarrow>
            map_of (fst (predict_credit_score svc features g)) ''confidence''
              = Some (PFloat (py_literal (85 / 100))) \<and>
            map_of (fst (predict_credit_score svc features g)) ''probabilities''
              = Some PNone) \<and>
         (\<forall>estimate proba.
            predict_proba m = Some estimate \<and> estimate features = Inr proba \<and>
            proba \<noteq> [] \<and> length proba \<le> 3 \<longrightarrow>
            map_of (fst (predict_credit_score svc features g)) ''probabilities''
              = Some (PDict (zip (map (PStr \<circ> snd) CREDIT_CATEGORIES)
                               (map (PFloat \<circ> Fin) proba))) \<and>
            map_of (fst (predict_credit_score svc features g)) ''confidence''
              = Some (PFloat (Fin (Max (set proba)))))"
proof -
  from predict_success_result [OF assms(2,3)] obtain p l s
    where r: "fst (predict_credit_score svc features g) =
           success_result p l s (fst (proba_step svc m features))
             (snd (proba_step svc m features)) (importance_step svc m) (type_name m)
             (features_used (feature_names svc) features)"
    by blast
  show ?thesis
    unfolding r success_fields default_confidence_def [symmetric]
    by (auto simp: proba_step_absent proba_step_estimated [OF assms(1)])
qed

theorem confidence_and_probabilities_witness:
  "service_inv (service_of (Some (bare 2))) \<and>
   model (service_of (Some (bare 2))) = Some (bare 2) \<and>
   predict_proba (bare 2) = None \<and>
   map_of (fst (predict_credit_score (service_of (Some (bare 2))) good_profile counting))
     ''success'' = Some (PBool True) \<and>
   map_of (fst (predict_credit_score (service_of (Some (bare 2))) good_profile counting))
     ''confidence'' = Some (PFloat (py_literal (85 / 100))) \<and>
   map_of (fst (predict_credit_score (service_of (Some (bare 2))) good_profile counting))
     ''probabilities'' = Some PNone \<and>
   service_inv (service_of (Some (forest 1))) \<and>
   model (service_of (Some (forest 1))) = Some (forest 1) \<and>
   map_option (\<lambda>estimate. estimate good_profile) (predict_proba (forest 1)) =
     Some (Inr [1 / 8, 3 / 4, 1 / 8]) \<and>
   map_of (fst (predict_credit_score (service_of (Some (forest 1))) good_profile counting))
     ''success'' = Some (PBool True) \<and>
   map_of (fst (predict_credit_score (service_of (Some (forest 1))) good_profile counting))
     ''confidence'' = Some (PFloat (Fin (3 / 4))) \<and>
   map_of (fst (predict_credit_score (service_of (Some (forest 1))) good_profile counting))
     ''probabilities'' =
       Some (PDict [(PStr ''Good'', PFloat (Fin (1 / 8))),
                    (PStr ''Poor'', PFloat (Fin (3 / 4))),
                    (PStr ''Standard'', PFloat (Fin (1 / 8)))])"
proof -
  have s2: "map_of (fst (predict_credit_score (service_of (Some (bare 2))) good_profile counting))
     ''success'' = Some (PBool True)"
    by (simp add: predict_bare_standard success_fields)
  have pp: "map_option (\<lambda>estimate. estimate good_profile) (predict_proba (forest 1)) =
              Some (Inr [1 / 8, 3 / 4, 1 / 8])"
    by (simp add: forest_def)
  show ?thesis
    using confidence_and_probabilities [OF service_of_inv service_of_fields(1) s2]
      confidence_and_probabilities [of "service_of (Some (forest 1))" "forest 1" good_profile
        counting]
    by (simp add: service_of_inv service_of_fields bare_fields predict_sample success_fields s2
        pp)
qed

text \<open>
  C5, as the code has it. The base is 750 for category 0, 580 for category 1, 650 for
  category 2 and 650 for any other category. The variance is \<^verbatim>\<open>int((1 - confidence) * 50)\<close>
  computed in double precision: the difference and then the product are rounded to the
  nearest double, and the result is truncated toward zero, which is the floor of the computed
  product whenever \<open>confidence \<le> 1\<close> and its ceiling above. For a confidence in \<open>[0, 1]\<close> the
  variance is in \<open>[0, 50]\<close>. Whenever the variance \<open>v\<close> is not negative and fits the 64-bit draw
  (\<open>v < 2^63\<close>), the returned score is the clamp into \<open>[300, 850]\<close> of the base plus an
  adjustment of \<open>[-v, +v]\<close>, and over all states of the generator exactly the adjustments of
  that closed interval occur.
\<close>

theorem score_conversion_formula:
  "base_score 0 = 750 \<and> base_score 1 = 580 \<and> base_score 2 = 650 \<and>
   (category \<notin> {0, 1, 2} \<longrightarrow> base_score category = 650) \<and>
   scaled_doubt confidence = fmul (fsub (Fin 1) confidence) (Fin 50) \<and>
   variance confidence = py_int (scaled_doubt confidence) \<and>
   (x \<le> 1 \<and> scaled_doubt (Fin x) = Fin p \<longrightarrow>
      variance (Fin x) = Inr \<lfloor>p\<rfloor>) \<and>
   (1 < x \<and> scaled_doubt (Fin x) = Fin p \<longrightarrow>
      variance (Fin x) = Inr \<lceil>p\<rceil>) \<and>
   (0 \<le> x \<and> x \<le> 1 \<longrightarrow> (\<exists>w. variance (Fin x) = Inr w \<and> 0 \<le> w \<and> w \<le> 50)) \<and>
   (variance confidence = Inr v \<and> 0 \<le> v \<and> v < 2 ^ 63 \<longrightarrow>
      fst (convert_category_to_score category confidence g) =
        Inr (max 300 (min 850 (base_score category + adjustment_of v g))) \<and>
      - v \<le> adjustment_of v g \<and> adjustment_of v g \<le> v \<and>
      possible_scores category confidence =
        (\<lambda>a. max 300 (min 850 (base_score category + a))) ` {- v .. v})"
proof (intro conjI impI)
  assume v: "variance confidence = Inr v \<and> 0 \<le> v \<and> v < 2 ^ 63"
  then have v1: "variance confidence = Inr v" and v2: "0 \<le> v" and v3: "v < 2 ^ 63"
    by simp_all
  show "possible_scores category confidence =
        (\<lambda>a. max 300 (min 850 (base_score category + a))) ` {- v .. v}"
    using v1 v2 v3 by (rule possible_scores_eq)
  show "- v \<le> adjustment_of v g"
    using adjustment_range [OF v2] by simp
  show "adjustment_of v g \<le> v"
    using adjustment_range [OF v2] by simp
  show "fst (convert_category_to_score category confidence g) =
        Inr (max 300 (min 850 (base_score category + adjustment_of v g)))"
    by (simp add: convert_ok [OF v1 v2 v3])
next
  assume "x \<le> 1 \<and> scaled_doubt (Fin x) = Fin p"
  then show "variance (Fin x) = Inr \<lfloor>p\<rfloor>"
    by (simp add: variance_floor)
next
  assume "1 < x \<and> scaled_doubt (Fin x) = Fin p"
  then show "variance (Fin x) = Inr \<lceil>p\<rceil>"
    by (simp add: variance_ceiling)
next
  assume "0 \<le> x \<and> x \<le> 1"
  then show "\<exists>w. variance (Fin x) = Inr w \<and> 0 \<le> w \<and> w \<le> 50"
    by (simp add: variance_unit)
next
qed (simp_all add: base_score_values variance_def scaled_doubt_def)

theorem score_conversion_formula_witness:
  "(5 :: int) \<notin> {0, 1, 2} \<and> base_score 5 = 650 \<and>
   (3 / 4 :: real) \<le> 1 \<and> (0 :: real) \<le> 3 / 4 \<and>
   scaled_doubt (Fin (3 / 4)) = Fin (25 / 2) \<and>
   variance (Fin (3 / 4)) = Inr 12 \<and> (0 :: int) \<le> 12 \<and> (12 :: int) < 2 ^ 63 \<and>
   fst (convert_category_to_score 5 (Fin (3 / 4)) counting) = Inr 641 \<and>
   possible_scores 5 (Fin (3 / 4)) = (\<lambda>a. max 300 (min 850 (650 + a))) ` {- 12 .. 12} \<and>
   (1 :: real) < 129 / 128 \<and>
   scaled_doubt (Fin (129 / 128)) = Fin (- (25 / 64)) \<and>
   variance (Fin (129 / 128)) = Inr 0 \<and>
   possible_scores 5 (Fin (129 / 128)) = {650}"
proof -
  have a: "adjustment_of 12 counting = - 9"
    by (simp add: adjustment_of_def counting_def)
  have c1: "\<lceil>- (25 / 64 :: real)\<rceil> = 0"
    by (rule ceiling_unique) simp_all
  show ?thesis
    using score_conversion_formula [where category = 5 and confidence = "Fin (3 / 4)"
        and x = "3 / 4" and p = "25 / 2" and v = 12 and g = counting]
      score_conversion_formula [where category = 5 and confidence = "Fin (129 / 128)"
        and x = "129 / 128" and p = "- (25 / 64)" and v = 0 and g = counting]
    by (simp add: doubt_075 doubt_129 doubt_65 doubt_three_halves variance_samples a c1)
qed

text \<open>
  C5 as stated takes the floor of \<open>(1 - confidence) * 50\<close> for every confidence and lets
  every variance reach the draw. At confidence \<open>129/128\<close> the floor is \<open>-1\<close>, so the stated
  interval of adjustments is empty, while the code truncates to a variance of 0 and returns
  the base 750. At the double that \<^verbatim>\<open>0.88\<close> denotes the exact product is just below 6 and its
  floor is 5, while the rounded product is 6. At confidence \<open>-10^18\<close> the variance is
  \<open>5 * 10^19\<close> and the draw rejects its bounds.
\<close>

theorem floor_variance_counterexample:
  "variance (Fin (129 / 128)) = Inr 0 \<and> spec_variance (129 / 128) = - 1 \<and>
   fst (convert_category_to_score 0 (Fin (129 / 128)) zeros) = Inr 750 \<and>
   spec_scores 0 (129 / 128) = {} \<and>
   py_literal (88 / 100) = Fin double_088 \<and> is_double double_088 \<and>
   variance (Fin double_088) = Inr 6 \<and> spec_variance double_088 = 5 \<and>
   variance (Fin (- (10 ^ 18))) = Inr (5 * 10 ^ 19) \<and>
   fst (convert_category_to_score 0 (Fin (- (10 ^ 18))) zeros) =
     Inl (ValueError ''low is out of bounds for int64'')"
proof -
  have s: "spec_variance (129 / 128) = - 1"
    unfolding spec_variance_def by (rule floor_unique) simp_all
  have t: "spec_variance double_088 = 5"
    unfolding spec_variance_def double_088_def by (rule floor_unique) simp_all
  have c: "fst (convert_category_to_score 0 (Fin (129 / 128)) zeros) = Inr 750"
    by (simp add: convert_ok [OF variance_samples(4)] adjustment_zero base_score_values)
  have h: "fst (convert_category_to_score 0 (Fin (- (10 ^ 18))) zeros) =
             Inl (ValueError ''low is out of bounds for int64'')"
    unfolding convert_category_to_score_def variance_huge
    by (simp add: randint_def Let_def)
  show ?thesis
    using s t c h literal_088 variance_samples(1,4) variance_huge sample_doubles(6)
    by (simp add: spec_scores_def)
qed

text \<open>
  C10, as the code has it. \<^verbatim>\<open>convert_category_to_score\<close> returns for every category whenever
  the confidence is in \<open>[0, 1]\<close>, the variance then being in \<open>[0, 50]\<close> and the interval of the
  draw not empty. Whenever the variance is negative the draw raises \<^verbatim>\<open>ValueError\<close> and leaves
  the generator untouched. For a confidence above 1 that is the case when the computed
  product \<open>(1 - confidence) * 50\<close> is at most \<open>-1\<close>; when the product is above \<open>-1\<close> the
  truncation gives the variance 0 and the call returns the clamped base.
\<close>

theorem conversion_totality:
  "(0 \<le> x \<and> x \<le> 1 \<longrightarrow>
      (\<exists>w. variance (Fin x) = Inr w \<and> 0 \<le> w \<and> w \<le> 50) \<and>
      (\<exists>score g'. convert_category_to_score category (Fin x) g = (Inr score, g'))) \<and>
   (variance confidence = Inr v \<and> v < 0 \<longrightarrow>
      convert_category_to_score category confidence g =
        (Inl (ValueError ''low >= high''), g)) \<and>
   (1 < x \<and> scaled_doubt (Fin x) = Fin p \<and> p \<le> - 1 \<longrightarrow>
      (\<exists>w. variance (Fin x) = Inr w \<and> w < 0) \<and>
      convert_category_to_score category (Fin x) g = (Inl (ValueError ''low >= high''), g)) \<and>
   (1 < x \<and> scaled_doubt (Fin x) = Fin p \<and> - 1 < p \<longrightarrow>
      variance (Fin x) = Inr 0 \<and>
      fst (convert_category_to_score category (Fin x) g) =
        Inr (max 300 (min 850 (base_score category))))"
proof (intro conjI impI)
  assume "0 \<le> x \<and> x \<le> 1"
  then have x: "0 \<le> x" "x \<le> 1" by simp_all
  show "\<exists>w. variance (Fin x) = Inr w \<and> 0 \<le> w \<and> w \<le> 50"
    using x by (rule variance_unit)
  from convert_unit [OF x]
  show "\<exists>score g'. convert_category_to_score category (Fin x) g = (Inr score, g')"
    by blast
next
  assume "variance confidence = Inr v \<and> v < 0"
  then show "convert_category_to_score category confidence g =
               (Inl (ValueError ''low >= high''), g)"
    by (simp add: convert_negative)
next
  assume "1 < x \<and> scaled_doubt (Fin x) = Fin p \<and> p \<le> - 1"
  then have h: "1 < x" "scaled_doubt (Fin x) = Fin p" "p \<le> - 1"
    by simp_all
  from variance_negative [OF h] obtain w where w: "variance (Fin x) = Inr w" "w < 0"
    by blast
  then show "\<exists>w. variance (Fin x) = Inr w \<and> w < 0" by blast
  from w show "convert_category_to_score category (Fin x) g =
                 (Inl (ValueError ''low >= high''), g)"
    by (rule convert_negative)
next
  assume "1 < x \<and> scaled_doubt (Fin x) = Fin p \<and> - 1 < p"
  then have h: "1 < x" "scaled_doubt (Fin x) = Fin p" "- 1 < p"
    by simp_all
  show z: "variance (Fin x) = Inr 0"
    using h by (rule variance_zero)
  show "fst (convert_category_to_score category (Fin x) g) =
          Inr (max 300 (min 850 (base_score category)))"
    by (simp add: convert_ok [OF z] adjustment_zero)
qed

theorem conversion_totality_witness:
  "((0 :: real) \<le> 1 / 2 \<and> (1 / 2 :: real) \<le> 1) \<and> variance (Fin (1 / 2)) = Inr 25 \<and>
   fst (convert_category_to_score 0 (Fin (1 / 2)) zeros) = Inr 725 \<and>
   (1 :: real) < 65 / 64 \<and>
   scaled_doubt (Fin (65 / 64)) = Fin (- (25 / 32)) \<and>
   (- 1 :: real) < - (25 / 32) \<and> variance (Fin (65 / 64)) = Inr 0 \<and>
   fst (convert_category_to_score 0 (Fin (65 / 64)) zeros) = Inr 750 \<and>
   (1 :: real) < 3 / 2 \<and>
   scaled_doubt (Fin (3 / 2)) = Fin (- 25) \<and>
   (- 25 :: real) \<le> - 1 \<and> variance (Fin (3 / 2)) = Inr (- 25) \<and>
   convert_category_to_score 0 (Fin (3 / 2)) zeros = (Inl (ValueError ''low >= high''), zeros)"
proof -
  have a: "adjustment_of 25 zeros = - 25"
    by (simp add: adjustment_of_def zeros_def)
  have c1: "fst (convert_category_to_score 0 (Fin (1 / 2)) zeros) = Inr 725"
    by (simp add: convert_ok [OF variance_samples(3)] a base_score_values)
  show ?thesis
    using conversion_totality [where x = "1 / 2" and category = 0 and g = zeros
        and confidence = "Fin (3 / 2)" and v = "- 25" and p = 0]
      conversion_totality [where x = "65 / 64" and category = 0 and g = zeros
        and confidence = "Fin (3 / 2)" and v = "- 25" and p = "- (25 / 32)"]
      conversion_totality [where x = "3 / 2" and category = 0 and g = zeros
        and confidence = "Fin (3 / 2)" and v = "- 25" and p = "- 25"]
    by (simp add: doubt_075 doubt_129 doubt_65 doubt_three_halves variance_samples c1 base_score_values)
qed

text \<open>
  C10 as stated says that every confidence above 1 makes the variance negative and the draw
  raise. At confidence \<open>65/64\<close> the variance is 0 and the call returns 580 for category 1.
\<close>

theorem truncation_counterexample:
  "(1 :: real) < 65 / 64 \<and> variance (Fin (65 / 64)) = Inr 0 \<and>
   fst (convert_category_to_score 1 (Fin (65 / 64)) zeros) = Inr 580"
  by (simp add: variance_samples convert_ok [OF variance_samples(5)] adjustment_zero
      base_score_values)

text \<open>
  C6. For every list of \<open>N\<close> feature vectors \<^verbatim>\<open>batch_predict\<close> returns exactly \<open>N\<close> results in
  input order, the \<open>i\<close>-th being \<^verbatim>\<open>predict_credit_score\<close> of the \<open>i\<close>-th input, run on the
  generator as the first \<open>i\<close> calls left it. An item that fails validation yields the failure
  result at its position and draws nothing, so the results at all other positions, and the
  generator afterwards, are those of the batch without that item; no failure aborts the batch.
\<close>

theorem batch_predict_in_order:
  "length (fst (batch_predict svc features_list g)) = length features_list \<and>
   (\<forall>i < length features_list.
      fst (batch_predict svc features_list g) ! i =
        fst (predict_credit_score svc (features_list ! i)
               (snd (batch_predict svc (take i features_list) g)))) \<and>
   (fst (validate_features svc bad) = Inr False \<longrightarrow>
      fst (batch_predict svc (before @ bad # after) g) =
        fst (batch_predict svc before g)
        @ failure_result (ValueError ''Invalid features provided'')
        # fst (batch_predict svc after (snd (batch_predict svc before g))) \<and>
      fst (batch_predict svc (before @ after) g) =
        fst (batch_predict svc before g)
        @ fst (batch_predict svc after (snd (batch_predict svc before g))) \<and>
      snd (batch_predict svc (before @ bad # after) g) =
        snd (batch_predict svc (before @ after) g))"
proof (intro conjI allI impI)
  show "length (fst (batch_predict svc features_list g)) = length features_list"
    by (rule batch_predict_length)
next
  fix i
  assume "i < length features_list"
  then show "fst (batch_predict svc features_list g) ! i =
        fst (predict_credit_score svc (features_list ! i)
               (snd (batch_predict svc (take i features_list) g)))"
    by (rule batch_predict_nth)
next
  assume bad: "fst (validate_features svc bad) = Inr False"
  show "fst (batch_predict svc (before @ bad # after) g) =
        fst (batch_predict svc before g)
        @ failure_result (ValueError ''Invalid features provided'')
        # fst (batch_predict svc after (snd (batch_predict svc before g)))"
    by (simp add: batch_predict_append batch_predict_Cons predict_invalid [OF bad])
  show "fst (batch_predict svc (before @ after) g) =
        fst (batch_predict svc before g)
        @ fst (batch_predict svc after (snd (batch_predict svc before g)))"
    by (simp add: batch_predict_append)
  show "snd (batch_predict svc (before @ bad # after) g) =
        snd (batch_predict svc (before @ after) g)"
    by (simp add: batch_predict_append batch_predict_Cons predict_invalid [OF bad])
qed

theorem batch_predict_in_order_witness:
  "fst (validate_features (service_of (Some (bare 2))) bad_profile) = Inr False \<and>
   (1 :: nat) < length [good_profile, bad_profile, good_profile] \<and>
   length (fst (batch_predict (service_of (Some (bare 2)))
                  [good_profile, bad_profile, good_profile] counting)) = 3 \<and>
   map (\<lambda>r. map_of r ''credit_score_estimate'')
     (fst (batch_predict (service_of (Some (bare 2)))
             [good_profile, bad_profile, good_profile] counting)) =
     [Some (PInt 646), Some PNone, Some (PInt 647)] \<and>
   fst (batch_predict (service_of (Some (bare 2)))
          [good_profile, bad_profile, good_profile] counting) ! 1 =
     failure_result (ValueError ''Invalid features provided'') \<and>
   map (\<lambda>r. map_of r ''credit_score_estimate'')
     (fst (batch_predict (service_of (Some (bare 2))) [good_profile, good_profile] counting)) =
     [Some (PInt 646), Some (PInt 647)]"
proof -
  have a: "adjustment_of 7 counting = - 4" "adjustment_of 7 (\<lambda>n. counting (Suc n)) = - 3"
    by (simp_all add: adjustment_of_def counting_def)
  show ?thesis
    using batch_predict_in_order [of "service_of (Some (bare 2))"
        "[good_profile, bad_profile, good_profile]" counting bad_profile
        "[good_profile]" "[good_profile]"]
    by (simp add: batch_predict_Cons batch_predict_Nil predict_bare_standard validate_bad
        predict_invalid a success_fields failure_fields)
qed

text \<open>
  C7, as the code has it. \<^verbatim>\<open>load_model\<close> raises \<^verbatim>\<open>FileNotFoundError\<close> whenever the model path
  does not exist. When the path exists and the deserializer raises, that exception is raised
  again unchanged, whatever its class. Either failure propagates out of the constructor, which
  then returns no service object; the constructor succeeds exactly when the path exists and
  the deserializer returns a model, which becomes the model handle.
\<close>

theorem load_model_failures:
  "(\<not> path_exists e (model_path svc) \<longrightarrow>
      load_model e svc =
        Inl (FileNotFoundError (''Model file not found: '' @ model_path svc))) \<and>
   (\<forall>err. path_exists e (model_path svc) \<and> joblib_load e (model_path svc) = Inl err \<longrightarrow>
      load_model e svc = Inl err) \<and>
   (\<forall>m. path_exists e (model_path svc) \<and> joblib_load e (model_path svc) = Inr m \<longrightarrow>
      load_model e svc = Inr (svc\<lparr>model := Some m\<rparr>)) \<and>
   (\<forall>err. init e path = Inl err \<longleftrightarrow>
      (\<not> path_exists e path \<and> err = FileNotFoundError (''Model file not found: '' @ path)) \<or>
      (path_exists e path \<and> joblib_load e path = Inl err)) \<and>
   (\<forall>svc'. init e path = Inr svc' \<longrightarrow>
      path_exists e path \<and> (\<exists>m. joblib_load e path = Inr m \<and> model svc' = Some m) \<and>
      service_inv svc' \<and> model_path svc' = path)"
proof (intro conjI allI impI)
  fix err
  show "init e path = Inl err \<longleftrightarrow>
      (\<not> path_exists e path \<and> err = FileNotFoundError (''Model file not found: '' @ path)) \<or>
      (path_exists e path \<and> joblib_load e path = Inl err)"
    by (rule init_failure)
next
  fix svc'
  assume i: "init e path = Inr svc'"
  then show "path_exists e path" "\<exists>m. joblib_load e path = Inr m \<and> model svc' = Some m"
    "service_inv svc'" "model_path svc' = path"
    by (auto simp: init_success service_inv_def)
qed (simp_all add: load_model_cases)

theorem load_model_failures_witness:
  "\<not> path_exists (disk False (Inr (forest 1))) (model_path (service_of None)) \<and>
   load_model (disk False (Inr (forest 1))) (service_of None) =
     Inl (FileNotFoundError ''Model file not found: models/credit_classifier.joblib'') \<and>
   init (disk False (Inr (forest 1))) ''models/credit_classifier.joblib'' =
     Inl (FileNotFoundError ''Model file not found: models/credit_classifier.joblib'') \<and>
   path_exists (disk True (Inl (Raised ''UnpicklingError'' ''invalid load key'')))
     (model_path (service_of None)) \<and>
   load_model (disk True (Inl (Raised ''UnpicklingError'' ''invalid load key'')))
     (service_of None) = Inl (Raised ''UnpicklingError'' ''invalid load key'') \<and>
   init (disk True (Inl (Raised ''UnpicklingError'' ''invalid load key'')))
     ''models/credit_classifier.joblib'' = Inl (Raised ''UnpicklingError'' ''invalid load key'') \<and>
   init (disk True (Inr (forest 1))) ''models/credit_classifier.joblib'' =
     Inr (service_of (Some (forest 1)))"
  using load_model_failures [of "disk False (Inr (forest 1))" "service_of None"
      "''models/credit_classifier.joblib''"]
    load_model_failures [of "disk True (Inl (Raised ''UnpicklingError'' ''invalid load key''))"
      "service_of None" "''models/credit_classifier.joblib''"]
    load_model_failures [of "disk True (Inr (forest 1))" "service_of None"
      "''models/credit_classifier.joblib''"]
  by (simp add: disk_def service_of_def init_def load_model_cases)

text \<open>
  C7 as stated wraps every other load fault in a \<open>ModelLoadError\<close>. When the file exists and
  the deserializer raises an \<^verbatim>\<open>UnpicklingError\<close>, the code raises that very exception, not a
  wrapper of another class.
\<close>

theorem load_error_not_wrapped_counterexample:
  "path_exists (disk True (Inl (Raised ''UnpicklingError'' ''invalid load key'')))
     (model_path (service_of None)) \<and>
   exn_class (Raised ''UnpicklingError'' ''invalid load key'') \<noteq> ''ModelLoadError'' \<and>
   load_model (disk True (Inl (Raised ''UnpicklingError'' ''invalid load key'')))
     (service_of None) = Inl (Raised ''UnpicklingError'' ''invalid load key'') \<and>
   spec_load_model (disk True (Inl (Raised ''UnpicklingError'' ''invalid load key'')))
     (service_of None) = Inl (Raised ''ModelLoadError'' ''invalid load key'') \<and>
   load_model (disk True (Inl (Raised ''UnpicklingError'' ''invalid load key'')))
     (service_of None) \<noteq>
   spec_load_model (disk True (Inl (Raised ''UnpicklingError'' ''invalid load key'')))
     (service_of None)"
  by (simp add: disk_def load_model_cases spec_load_model_def)

text \<open>
  C8. \<^verbatim>\<open>get_model_info\<close> returns exactly \<open>{error: "Model not loaded"}\<close> when the model handle
  is absent. Otherwise it returns the runtime type name, the feature schema, the category map
  and a loaded flag set to true, and each of \<open>n_estimators\<close>, \<open>max_depth\<close> and \<open>random_state\<close>
  is a key of the result if and only if the model exposes that attribute, with the attribute's
  value, each independently of the others.
\<close>

theorem model_info_contents:
  "(model svc = None \<longrightarrow> get_model_info svc = [(''error'', PStr ''Model not loaded'')]) \<and>
   (\<forall>m. model svc = Some m \<longrightarrow>
      map_of (get_model_info svc) ''model_type'' = Some (PStr (type_name m)) \<and>
      map_of (get_model_info svc) ''feature_names'' =
        Some (PList (map PStr (feature_names svc))) \<and>
      map_of (get_model_info svc) ''credit_categories'' =
        Some (PDict (map (\<lambda>(k, l). (PInt k, PStr l)) (credit_categories svc))) \<and>
      map_of (get_model_info svc) ''model_loaded'' = Some (PBool True) \<and>
      map_of (get_model_info svc) ''n_estimators'' = n_estimators m \<and>
      map_of (get_model_info svc) ''max_depth'' = max_depth m \<and>
      map_of (get_model_info svc) ''random_state'' = random_state m \<and>
      map fst (get_model_info svc) =
        [''model_type'', ''feature_names'', ''credit_categories'', ''model_loaded'']
        @ (if n_estimators m = None then [] else [''n_estimators''])
        @ (if max_depth m = None then [] else [''max_depth''])
        @ (if random_state m = None then [] else [''random_state'']))"
proof (intro conjI impI allI)
  assume "model svc = None"
  then show "get_model_info svc = [(''error'', PStr ''Model not loaded'')]"
    by (simp add: get_model_info_def)
qed (simp_all only: info_fixed info_optional info_keys)

theorem model_info_contents_witness:
  "model (service_of None) = None \<and>
   get_model_info (service_of None) = [(''error'', PStr ''Model not loaded'')] \<and>
   model (service_of (Some (forest 1))) = Some (forest 1) \<and>
   map fst (get_model_info (service_of (Some (forest 1)))) =
     [''model_type'', ''feature_names'', ''credit_categories'', ''model_loaded'',
      ''n_estimators'', ''max_depth'', ''random_state''] \<and>
   map_of (get_model_info (service_of (Some (forest 1)))) ''max_depth'' = Some PNone \<and>
   map_of (get_model_info (service_of (Some (forest 1)))) ''credit_categories'' =
     Some (PDict [(PInt 0, PStr ''Good''), (PInt 1, PStr ''Poor''), (PInt 2, PStr ''Standard'')]) \<and>
   model (service_of (Some (bare 1))) = Some (bare 1) \<and>
   map fst (get_model_info (service_of (Some (bare 1)))) =
     [''model_type'', ''feature_names'', ''credit_categories'', ''model_loaded'']"
  using model_info_contents [of "service_of None"]
    model_info_contents [of "service_of (Some (forest 1))"]
    model_info_contents [of "service_of (Some (bare 1))"]
  by (simp add: service_of_fields forest_def bare_def CREDIT_CATEGORIES_def)

text \<open>
  C9. If the loaded classifier returns a class id outside 0, 1, 2 for a valid input,
  \<^verbatim>\<open>predict_credit_score\<close> returns a failure result. Score conversion falls back to the base
  650 for such a category; when it returns (the variance is not negative and fits the 64-bit
  draw), the lookup of the label in the category map
  raises \<^verbatim>\<open>KeyError\<close>, which the handler turns into the failure object.
\<close>

theorem unknown_class_is_failure:
  assumes "service_inv svc"
    and "fst (validate_features svc features) = Inr True"
    and "model svc = Some m"
    and "predict m features = Inr c"
    and "c \<notin> {0, 1, 2}"
  shows "(\<exists>e. fst (predict_credit_score svc features g) = failure_result e) \<and>
         map_of (fst (predict_credit_score svc features g)) ''success'' = Some (PBool False) \<and>
         base_score c = 650 \<and>
         (variance (fst (proba_step svc m features)) = Inr v \<and> 0 \<le> v \<and> v < 2 ^ 63 \<longrightarrow>
            fst (predict_credit_score svc features g) = failure_result (KeyError c))"
proof -
  have none: "map_of (credit_categories svc) c = None"
    using assms(1,5) by (rule categories_unknown)
  from predict_unknown_class [OF assms(2-4) none, of g] obtain e
    where e: "fst (predict_credit_score svc features g) = failure_result e" by blast
  have drawn: "fst (predict_credit_score svc features g) = failure_result (KeyError c)"
    if "variance (fst (proba_step svc m features)) = Inr v \<and> 0 \<le> v \<and> v < 2 ^ 63"
    using that predict_unknown_class_drawn [OF assms(2-4) none, of v g] by blast
  show ?thesis
    using e drawn assms(5) by (auto simp: failure_fields base_score_values)
qed

theorem unknown_class_is_failure_witness:
  "service_inv (service_of (Some (bare 5))) \<and>
   fst (validate_features (service_of (Some (bare 5))) good_profile) = Inr True \<and>
   model (service_of (Some (bare 5))) = Some (bare 5) \<and>
   predict (bare 5) good_profile = Inr 5 \<and>
   (5 :: int) \<notin> {0, 1, 2} \<and>
   base_score 5 = 650 \<and>
   variance (fst (proba_step (service_of (Some (bare 5))) (bare 5) good_profile)) = Inr 7 \<and>
   fst (predict_credit_score (service_of (Some (bare 5))) good_profile counting) =
     failure_result (KeyError 5) \<and>
   map_of (fst (predict_credit_score (service_of (Some (bare 5))) good_profile counting))
     ''success'' = Some (PBool False) \<and>
   map_of (fst (predict_credit_score (service_of (Some (bare 5))) good_profile counting))
     ''error'' = Some (PStr ''5'')"
  using unknown_class_is_failure [where svc = "service_of (Some (bare 5))"
      and features = good_profile and m = "bare 5" and c = 5 and v = 7 and g = counting]
  by (simp add: service_of_inv validate_good service_of_fields bare_fields proba_bare
      variance_default failure_fields show_int_5)

end
